theory Spec2Isabelle
  imports Main "HOL-Library.Sublist" "HOL-Library.AList" "HOL-Library.List_Lexorder"
    "HOL-Library.Char_ord"
begin

text \<open>
  A shallow embedding of the Python package \<open>wavesurf\<close>, which renders wavesurfer.js audio
  players as HTML for notebooks: the option set and its serialisation, event handlers,
  themes and the theme registry, controls, plugins, audio sources, the HTML and
  JavaScript generation, the player and the grid layout. Each section follows one module
  of the package and keeps its names. The result of a function that can raise is a sum
  whose left summand is the exception raised. Integers are unbounded, as Python's are;
  the interpreter's adjustable ceiling on the number of digits of an integer that is
  turned into text, and running out of memory, are left out.
\<close>

section \<open>Python values, dictionaries and exceptions\<close>

text \<open>
  The values that travel through the option pipeline are the JSON-serialisable Python
  values the option fields are declared with: \<open>None\<close>, booleans, integers, floats,
  strings, lists and string-keyed dictionaries. A float is carried by the text
  \<open>float.__repr__\<close> gives it, which is all the serialiser looks at. A Python \<open>str\<close> is a
  \<open>string\<close> whose characters are the code points 0 to 255.

  A \<open>dict\<close> is an association list in insertion order with pairwise different keys:
  \<open>d[k] = v\<close> is \<open>AList.update k v d\<close> (replace in place, else append), \<open>d.get(k)\<close> is
  \<open>map_of d k\<close> and \<open>d.pop(k, None)\<close> leaves \<open>AList.delete k d\<close>.
\<close>

datatype pyval =
    PyNone
  | PyBool bool
  | PyInt int
  | PyFloat string
  | PyStr string
  | PyList "pyval list"
  | PyDict "(string \<times> pyval) list"

type_synonym pydict = "(string \<times> pyval) list"

text \<open>Every exception the modelled code raises, by its Python class and what it names.\<close>

datatype error =
    ValueError_sr_required
      \<comment> \<open>\<open>ValueError("sr (sample rate) is required when passing a numpy array")\<close>\<close>
  | TypeError_audio string
      \<comment> \<open>\<open>TypeError("audio must be a numpy array, ... got <type name>")\<close>\<close>
  | TypeError_not_a_theme string
      \<comment> \<open>\<open>TypeError("Expected a Theme instance, got <type name>")\<close>\<close>
  | TypeError_unexpected_keyword string string
      \<comment> \<open>\<open>TypeError("<function>() got an unexpected keyword argument '<name>'")\<close>\<close>
  | TypeError_missing_arguments string "string list"
      \<comment> \<open>\<open>TypeError("<function>() missing n required positional arguments: ...")\<close>\<close>
  | TypeError_multiple_values string string
      \<comment> \<open>\<open>TypeError("<function>() got multiple values for argument '<name>'")\<close>\<close>
  | KeyError_unknown_theme string "string list"
      \<comment> \<open>\<open>KeyError("Unknown theme <name>. Available: <sorted names>")\<close>\<close>
  | KeyError_unregistered_default string
      \<comment> \<open>\<open>KeyError("Cannot set default to unregistered theme <name>")\<close>\<close>
  | KeyError_key string
      \<comment> \<open>the bare \<open>KeyError(<key>)\<close> of a failed dictionary subscript\<close>
  | SoundFileError string
      \<comment> \<open>an exception that comes out of a call into the soundfile library, by its text\<close>
  | TorchError string
      \<comment> \<open>an exception that comes out of a call into torch, by its text\<close>

definition dict_get :: "('k \<times> 'v) list \<Rightarrow> 'k \<Rightarrow> 'v \<Rightarrow> 'v" where
  "dict_get d k dflt = (case map_of d k of None \<Rightarrow> dflt | Some v \<Rightarrow> v)"

definition dict_setdefault :: "('k \<times> 'v) list \<Rightarrow> 'k \<Rightarrow> 'v \<Rightarrow> ('k \<times> 'v) list" where
  "dict_setdefault d k v = (if k \<in> fst ` set d then d else AList.update k v d)"

definition dict_update :: "('k \<times> 'v) list \<Rightarrow> ('k \<times> 'v) list \<Rightarrow> ('k \<times> 'v) list" where
  "dict_update d other = fold (\<lambda>(k, v) acc. AList.update k v acc) other d"

subsection \<open>Text of numbers, joining, replacing\<close>

definition digit_char :: "nat \<Rightarrow> char" where
  "digit_char d = char_of (48 + d)"

fun str_nat :: "nat \<Rightarrow> string" where
  "str_nat n = (if n < 10 then [digit_char n] else str_nat (n div 10) @ [digit_char (n mod 10)])"

declare str_nat.simps [simp del]

definition str_int :: "int \<Rightarrow> string" where
  "str_int i = (if i < 0 then CHR ''-'' # str_nat (nat (- i)) else str_nat (nat i))"

definition hex_char :: "nat \<Rightarrow> char" where
  "hex_char d = (if d < 10 then char_of (48 + d) else char_of (87 + d))"

fun join :: "string \<Rightarrow> string list \<Rightarrow> string" where
  "join sep [] = []"
| "join sep [x] = x"
| "join sep (x # y # ys) = x @ sep @ join sep (y # ys)"

definition replace :: "char \<Rightarrow> string \<Rightarrow> string \<Rightarrow> string" where
  "replace c r s = concat (map (\<lambda>x. if x = c then r else [x]) s)"

definition startswith :: "string \<Rightarrow> string \<Rightarrow> bool" where
  "startswith s p = (take (length p) s = p)"

subsection \<open>\<open>str()\<close> and \<open>repr()\<close>\<close>

definition printable :: "char \<Rightarrow> bool" where
  "printable c = (let n = of_char c :: nat in
     (32 \<le> n \<and> n < 127) \<or> (161 \<le> n \<and> n \<noteq> 173))"

definition repr_char :: "char \<Rightarrow> char \<Rightarrow> string" where
  "repr_char q c =
     (if c = q \<or> c = CHR 0x5C then [CHR 0x5C, c]
      else if c = CHR 0x09 then [CHR 0x5C, CHR ''t'']
      else if c = CHR 0x0A then [CHR 0x5C, CHR ''n'']
      else if c = CHR 0x0D then [CHR 0x5C, CHR ''r'']
      else if printable c then [c]
      else [CHR 0x5C, CHR ''x'', hex_char (of_char c div 16), hex_char (of_char c mod 16)])"

definition repr_str :: "string \<Rightarrow> string" where
  "repr_str s =
     (let q = (if CHR 0x27 \<in> set s \<and> CHR 0x22 \<notin> set s then CHR 0x22 else CHR 0x27)
      in [q] @ concat (map (repr_char q) s) @ [q])"

fun py_repr :: "pyval \<Rightarrow> string" where
  "py_repr PyNone = ''None''"
| "py_repr (PyBool b) = (if b then ''True'' else ''False'')"
| "py_repr (PyInt i) = str_int i"
| "py_repr (PyFloat r) = r"
| "py_repr (PyStr s) = repr_str s"
| "py_repr (PyList xs) = ''['' @ join '', '' (map py_repr xs) @ '']''"
| "py_repr (PyDict kvs) =
     ''{'' @ join '', '' (map (\<lambda>kv. repr_str (fst kv) @ '': '' @ py_repr (snd kv)) kvs) @ ''}''"

text \<open>What an f-string puts in place of \<open>{value}\<close>.\<close>

definition py_str :: "pyval \<Rightarrow> string" where
  "py_str v = (case v of PyStr s \<Rightarrow> s | _ \<Rightarrow> py_repr v)"

subsection \<open>\<open>json.dumps\<close> with its default arguments\<close>

text \<open>
  \<open>ensure_ascii\<close> is on: inside a string every character outside \<open>' '\<close> .. \<open>'~'\<close>, the
  double quote and the backslash are escaped. Items are separated by \<open>", "\<close> and keys
  from values by \<open>": "\<close>.
\<close>

definition json_escape_char :: "char \<Rightarrow> string" where
  "json_escape_char c =
     (if c = CHR 0x5C then [CHR 0x5C, CHR 0x5C]
      else if c = CHR 0x22 then [CHR 0x5C, CHR 0x22]
      else if c = CHR 0x08 then [CHR 0x5C, CHR ''b'']
      else if c = CHR 0x0C then [CHR 0x5C, CHR ''f'']
      else if c = CHR 0x0A then [CHR 0x5C, CHR ''n'']
      else if c = CHR 0x0D then [CHR 0x5C, CHR ''r'']
      else if c = CHR 0x09 then [CHR 0x5C, CHR ''t'']
      else if 32 \<le> (of_char c :: nat) \<and> (of_char c :: nat) \<le> 126 then [c]
      else [CHR 0x5C, CHR ''u'', CHR ''0'', CHR ''0'',
            hex_char (of_char c div 16), hex_char (of_char c mod 16)])"

definition json_string :: "string \<Rightarrow> string" where
  "json_string s = [CHR 0x22] @ concat (map json_escape_char s) @ [CHR 0x22]"

definition json_float :: "string \<Rightarrow> string" where
  "json_float r =
     (if r = ''nan'' then ''NaN''
      else if r = ''inf'' then ''Infinity''
      else if r = ''-inf'' then ''-Infinity''
      else r)"

fun json_dumps :: "pyval \<Rightarrow> string" where
  "json_dumps PyNone = ''null''"
| "json_dumps (PyBool b) = (if b then ''true'' else ''false'')"
| "json_dumps (PyInt i) = str_int i"
| "json_dumps (PyFloat r) = json_float r"
| "json_dumps (PyStr s) = json_string s"
| "json_dumps (PyList xs) = ''['' @ join '', '' (map json_dumps xs) @ '']''"
| "json_dumps (PyDict kvs) =
     ''{'' @ join '', '' (map (\<lambda>kv. json_string (fst kv) @ '': '' @ json_dumps (snd kv)) kvs) @ ''}''"

section \<open>The option set (\<open>_options.py\<close>)\<close>

text \<open>The hand-written table from the snake_case field names to the names wavesurfer.js uses.\<close>

definition SNAKE_TO_CAMEL :: "(string \<times> string) list" where
  "SNAKE_TO_CAMEL = [
     (''audio_rate'', ''audioRate''),
     (''auto_center'', ''autoCenter''),
     (''auto_scroll'', ''autoScroll''),
     (''autoplay'', ''autoplay''),
     (''backend'', ''backend''),
     (''bar_align'', ''barAlign''),
     (''bar_gap'', ''barGap''),
     (''bar_height'', ''barHeight''),
     (''bar_min_height'', ''barMinHeight''),
     (''bar_radius'', ''barRadius''),
     (''bar_width'', ''barWidth''),
     (''blob_mime_type'', ''blobMimeType''),
     (''container'', ''container''),
     (''csp_nonce'', ''cspNonce''),
     (''cursor_color'', ''cursorColor''),
     (''cursor_width'', ''cursorWidth''),
     (''drag_to_seek'', ''dragToSeek''),
     (''duration'', ''duration''),
     (''fetch_params'', ''fetchParams''),
     (''fill_parent'', ''fillParent''),
     (''height'', ''height''),
     (''hide_scrollbar'', ''hideScrollbar''),
     (''interact'', ''interact''),
     (''media_controls'', ''mediaControls''),
     (''max_peak'', ''maxPeak''),
     (''min_px_per_sec'', ''minPxPerSec''),
     (''normalize'', ''normalize''),
     (''progress_color'', ''progressColor''),
     (''render_function'', ''renderFunction''),
     (''sample_rate'', ''sampleRate''),
     (''split_channels'', ''splitChannels''),
     (''url'', ''url''),
     (''wave_color'', ''waveColor''),
     (''width'', ''width'')]"

text \<open>
  The dataclass \<open>WaveSurferOptions\<close>: every field defaults to \<open>None\<close>. The type hints
  are not enforced when the program runs, so a field holds any value. The field
  \<open>normalize\<close> is spelt \<open>normalize_opt\<close> here.
\<close>

record WaveSurferOptions =
  audio_rate :: pyval
  auto_center :: pyval
  auto_scroll :: pyval
  autoplay :: pyval
  backend :: pyval
  bar_align :: pyval
  bar_gap :: pyval
  bar_height :: pyval
  bar_min_height :: pyval
  bar_radius :: pyval
  bar_width :: pyval
  blob_mime_type :: pyval
  csp_nonce :: pyval
  cursor_color :: pyval
  cursor_width :: pyval
  drag_to_seek :: pyval
  duration :: pyval
  fetch_params :: pyval
  fill_parent :: pyval
  height :: pyval
  hide_scrollbar :: pyval
  interact :: pyval
  media_controls :: pyval
  max_peak :: pyval
  min_px_per_sec :: pyval
  normalize_opt :: pyval
  progress_color :: pyval
  render_function :: pyval
  sample_rate :: pyval
  split_channels :: pyval
  url :: pyval
  wave_color :: pyval
  width :: pyval

text \<open>\<open>[(f.name, getattr(self, f.name)) for f in fields(self)]\<close>, in declaration order.\<close>

definition fields_items :: "WaveSurferOptions \<Rightarrow> (string \<times> pyval) list" where
  "fields_items self = [
     (''audio_rate'', audio_rate self),
     (''auto_center'', auto_center self),
     (''auto_scroll'', auto_scroll self),
     (''autoplay'', autoplay self),
     (''backend'', backend self),
     (''bar_align'', bar_align self),
     (''bar_gap'', bar_gap self),
     (''bar_height'', bar_height self),
     (''bar_min_height'', bar_min_height self),
     (''bar_radius'', bar_radius self),
     (''bar_width'', bar_width self),
     (''blob_mime_type'', blob_mime_type self),
     (''csp_nonce'', csp_nonce self),
     (''cursor_color'', cursor_color self),
     (''cursor_width'', cursor_width self),
     (''drag_to_seek'', drag_to_seek self),
     (''duration'', duration self),
     (''fetch_params'', fetch_params self),
     (''fill_parent'', fill_parent self),
     (''height'', height self),
     (''hide_scrollbar'', hide_scrollbar self),
     (''interact'', interact self),
     (''media_controls'', media_controls self),
     (''max_peak'', max_peak self),
     (''min_px_per_sec'', min_px_per_sec self),
     (''normalize'', normalize_opt self),
     (''progress_color'', progress_color self),
     (''render_function'', render_function self),
     (''sample_rate'', sample_rate self),
     (''split_channels'', split_channels self),
     (''url'', url self),
     (''wave_color'', wave_color self),
     (''width'', width self)]"

text \<open>\<open>[f.name for f in fields(cls)]\<close>.\<close>

definition field_names :: "string list" where
  "field_names = [
     ''audio_rate'',
     ''auto_center'',
     ''auto_scroll'',
     ''autoplay'',
     ''backend'',
     ''bar_align'',
     ''bar_gap'',
     ''bar_height'',
     ''bar_min_height'',
     ''bar_radius'',
     ''bar_width'',
     ''blob_mime_type'',
     ''csp_nonce'',
     ''cursor_color'',
     ''cursor_width'',
     ''drag_to_seek'',
     ''duration'',
     ''fetch_params'',
     ''fill_parent'',
     ''height'',
     ''hide_scrollbar'',
     ''interact'',
     ''media_controls'',
     ''max_peak'',
     ''min_px_per_sec'',
     ''normalize'',
     ''progress_color'',
     ''render_function'',
     ''sample_rate'',
     ''split_channels'',
     ''url'',
     ''wave_color'',
     ''width'']"

text \<open>
  The \<open>__init__\<close> that \<open>@dataclass\<close> generates takes one keyword for each field, each
  with the default \<open>None\<close>. \<open>init_fields\<close> is its body, which stores every field;
  \<open>WaveSurferOptions_init\<close> is the call \<open>WaveSurferOptions(**kw)\<close>, where a keyword that
  names no field is a \<open>TypeError\<close>.
\<close>

definition init_fields :: "pydict \<Rightarrow> WaveSurferOptions" where
  "init_fields kw = \<lparr>
     audio_rate = dict_get kw ''audio_rate'' PyNone,
     auto_center = dict_get kw ''auto_center'' PyNone,
     auto_scroll = dict_get kw ''auto_scroll'' PyNone,
     autoplay = dict_get kw ''autoplay'' PyNone,
     backend = dict_get kw ''backend'' PyNone,
     bar_align = dict_get kw ''bar_align'' PyNone,
     bar_gap = dict_get kw ''bar_gap'' PyNone,
     bar_height = dict_get kw ''bar_height'' PyNone,
     bar_min_height = dict_get kw ''bar_min_height'' PyNone,
     bar_radius = dict_get kw ''bar_radius'' PyNone,
     bar_width = dict_get kw ''bar_width'' PyNone,
     blob_mime_type = dict_get kw ''blob_mime_type'' PyNone,
     csp_nonce = dict_get kw ''csp_nonce'' PyNone,
     cursor_color = dict_get kw ''cursor_color'' PyNone,
     cursor_width = dict_get kw ''cursor_width'' PyNone,
     drag_to_seek = dict_get kw ''drag_to_seek'' PyNone,
     duration = dict_get kw ''duration'' PyNone,
     fetch_params = dict_get kw ''fetch_params'' PyNone,
     fill_parent = dict_get kw ''fill_parent'' PyNone,
     height = dict_get kw ''height'' PyNone,
     hide_scrollbar = dict_get kw ''hide_scrollbar'' PyNone,
     interact = dict_get kw ''interact'' PyNone,
     media_controls = dict_get kw ''media_controls'' PyNone,
     max_peak = dict_get kw ''max_peak'' PyNone,
     min_px_per_sec = dict_get kw ''min_px_per_sec'' PyNone,
     normalize_opt = dict_get kw ''normalize'' PyNone,
     progress_color = dict_get kw ''progress_color'' PyNone,
     render_function = dict_get kw ''render_function'' PyNone,
     sample_rate = dict_get kw ''sample_rate'' PyNone,
     split_channels = dict_get kw ''split_channels'' PyNone,
     url = dict_get kw ''url'' PyNone,
     wave_color = dict_get kw ''wave_color'' PyNone,
     width = dict_get kw ''width'' PyNone\<rparr>"

definition WaveSurferOptions_init :: "pydict \<Rightarrow> error + WaveSurferOptions" where
  "WaveSurferOptions_init kw =
     (case filter (\<lambda>(k, v). k \<notin> set field_names) kw of
        (k, v) # _ \<Rightarrow> Inl (TypeError_unexpected_keyword ''WaveSurferOptions.__init__'' k)
      | [] \<Rightarrow> Inr (init_fields kw))"

text \<open>
  \<open>to_js_dict\<close>: walk the fields, skip those that are \<open>None\<close>, and store the others
  under \<open>_SNAKE_TO_CAMEL.get(f.name, f.name)\<close>.
\<close>

definition camel_key :: "string \<Rightarrow> string" where
  "camel_key fname = dict_get SNAKE_TO_CAMEL fname fname"

definition to_js_dict :: "WaveSurferOptions \<Rightarrow> pydict" where
  "to_js_dict self =
     fold (\<lambda>(fname, val) result.
             if val = PyNone then result else AList.update (camel_key fname) val result)
          (fields_items self) []"

text \<open>
  \<open>to_json\<close>: pop \<open>renderFunction\<close> from the dictionary, encode the rest, and when
  something other than \<open>None\<close> was popped cut the last character off the text and append
  the key, the popped value as the f-string prints it, and a closing brace.
\<close>

definition to_json :: "WaveSurferOptions \<Rightarrow> string" where
  \<open>to_json self =
     (let js_dict = to_js_dict self;
          render_fn = dict_get js_dict ''renderFunction'' PyNone;
          js_dict = AList.delete ''renderFunction'' js_dict;
          json_str = json_dumps (PyDict js_dict)
      in if render_fn \<noteq> PyNone
         then butlast json_str @ '', "renderFunction": '' @ py_str render_fn @ ''}''
         else json_str)\<close>

text \<open>
  \<open>from_kwargs\<close> is a class method, \<open>def from_kwargs(cls, **kwargs)\<close>, and its caller
  spreads a dictionary into keywords, \<open>WaveSurferOptions.from_kwargs(**merged)\<close>. The
  parameter \<open>cls\<close> is already bound to the class, so a key \<open>cls\<close> in that dictionary is a
  \<open>TypeError\<close> before the body runs. The body keeps the keys that are field names and calls
  the class with them.
\<close>

definition from_kwargs :: "pydict \<Rightarrow> error + WaveSurferOptions" where
  "from_kwargs kwargs =
     (if ''cls'' \<in> fst ` set kwargs
      then Inl (TypeError_multiple_values ''WaveSurferOptions.from_kwargs'' ''cls'')
      else (let filtered = filter (\<lambda>(k, v). k \<in> set field_names) kwargs
            in WaveSurferOptions_init filtered))"

text \<open>\<open>merge\<close> takes the overrides as one dictionary, so no key of it can clash.\<close>

definition merge :: "WaveSurferOptions \<Rightarrow> pydict \<Rightarrow> error + WaveSurferOptions" where
  "merge self overrides =
     (let current = fold (\<lambda>(k, v) current.
                            if k \<in> set field_names then AList.update k v current else current)
                         overrides (fields_items self)
      in WaveSurferOptions_init current)"

section \<open>Event handlers (\<open>_events.py\<close>)\<close>

text \<open>The parameter names of the callback of each of the 24 wavesurfer.js events.\<close>

definition EVENT_PARAMS :: "(string \<times> string list) list" where
  "EVENT_PARAMS = [
     (''audioprocess'', [''currentTime'']),
     (''click'', [''relativeX'', ''relativeY'']),
     (''dblclick'', [''relativeX'', ''relativeY'']),
     (''decode'', [''duration'']),
     (''destroy'', []),
     (''drag'', [''relativeX'']),
     (''dragend'', [''relativeX'']),
     (''dragstart'', [''relativeX'']),
     (''error'', [''error'']),
     (''finish'', []),
     (''init'', []),
     (''interaction'', [''newTime'']),
     (''load'', [''url'']),
     (''loading'', [''percent'']),
     (''pause'', []),
     (''play'', []),
     (''ready'', [''duration'']),
     (''redraw'', []),
     (''redrawcomplete'', []),
     (''resize'', []),
     (''scroll'', [''visibleStartTime'', ''visibleEndTime'', ''scrollLeft'', ''scrollRight'']),
     (''seeking'', [''currentTime'']),
     (''timeupdate'', [''currentTime'']),
     (''zoom'', [''minPxPerSec''])]"

record EventHandler =
  event :: string
  js :: string
  once :: bool

definition to_js :: "EventHandler \<Rightarrow> string \<Rightarrow> string" where
  \<open>to_js self ws_var =
     (let params = dict_get EVENT_PARAMS (event self) [];
          param_list = join '', '' params;
          method = (if once self then ''once'' else ''on'')
      in ws_var @ ''.'' @ method @ ''("'' @ event self @ ''", function('' @ param_list
           @ '') { '' @ js self @ '' });'')\<close>

section \<open>Themes and the theme registry (\<open>_theme.py\<close>)\<close>

text \<open>
  A theme is a frozen dataclass. Its fields are modelled with the types they are declared
  with; the two colour fields that take a string or a list of strings are Python values.
\<close>

record Theme =
  wave_color :: pyval
  progress_color :: pyval
  cursor_color :: "string option"
  bar_width :: "int option"
  bar_gap :: "int option"
  bar_radius :: "int option"
  height :: "int option"
  background :: string
  border :: string
  border_radius :: string
  padding :: string
  font_family :: string
  title_color :: string
  title_font_size :: string
  title_font_weight :: string
  title_marker_color :: "string option"
  title_marker_shape :: "string option"
  play_button_style :: string
  play_button_color :: string
  play_button_bg :: string
  play_button_hover_glow :: "string option"
  time_color :: string
  top_accent :: "string option"
  background_pattern :: "string option"
  card_margin_bottom :: string

definition opt_str :: "string option \<Rightarrow> pyval" where
  "opt_str s = (case s of None \<Rightarrow> PyNone | Some t \<Rightarrow> PyStr t)"

definition opt_int :: "int option \<Rightarrow> pyval" where
  "opt_int i = (case i of None \<Rightarrow> PyNone | Some n \<Rightarrow> PyInt n)"

text \<open>
  For a value \<open>s\<close> that is a string or \<open>None\<close>: the test \<open>if s:\<close>, the text an f-string
  prints for \<open>{s}\<close>, and \<open>s or d\<close>.
\<close>

definition truthy :: "string option \<Rightarrow> bool" where
  "truthy s = (case s of None \<Rightarrow> False | Some t \<Rightarrow> t \<noteq> [])"

definition str_of :: "string option \<Rightarrow> string" where
  "str_of s = (case s of None \<Rightarrow> ''None'' | Some t \<Rightarrow> t)"

definition or_else :: "string option \<Rightarrow> string \<Rightarrow> string" where
  "or_else s d = (if truthy s then str_of s else d)"

text \<open>\<open>[(f.name, getattr(self, f.name)) for f in fields(self)]\<close> of a theme.\<close>

definition theme_items :: "Theme \<Rightarrow> (string \<times> pyval) list" where
  "theme_items self = [
     (''wave_color'', wave_color self),
     (''progress_color'', progress_color self),
     (''cursor_color'', opt_str (cursor_color self)),
     (''bar_width'', opt_int (bar_width self)),
     (''bar_gap'', opt_int (bar_gap self)),
     (''bar_radius'', opt_int (bar_radius self)),
     (''height'', opt_int (height self)),
     (''background'', PyStr (background self)),
     (''border'', PyStr (border self)),
     (''border_radius'', PyStr (border_radius self)),
     (''padding'', PyStr (padding self)),
     (''font_family'', PyStr (font_family self)),
     (''title_color'', PyStr (title_color self)),
     (''title_font_size'', PyStr (title_font_size self)),
     (''title_font_weight'', PyStr (title_font_weight self)),
     (''title_marker_color'', opt_str (title_marker_color self)),
     (''title_marker_shape'', opt_str (title_marker_shape self)),
     (''play_button_style'', PyStr (play_button_style self)),
     (''play_button_color'', PyStr (play_button_color self)),
     (''play_button_bg'', PyStr (play_button_bg self)),
     (''play_button_hover_glow'', opt_str (play_button_hover_glow self)),
     (''time_color'', PyStr (time_color self)),
     (''top_accent'', opt_str (top_accent self)),
     (''background_pattern'', opt_str (background_pattern self)),
     (''card_margin_bottom'', PyStr (card_margin_bottom self))]"

definition waveform_fields :: "string list" where
  "waveform_fields = [''wave_color'', ''progress_color'', ''cursor_color'',
     ''bar_width'', ''bar_gap'', ''bar_radius'', ''height'']"

definition waveform_overrides :: "Theme \<Rightarrow> pydict" where
  "waveform_overrides self =
     filter (\<lambda>(fname, val). fname \<in> set waveform_fields \<and> val \<noteq> PyNone) (theme_items self)"

text \<open>\<open>Theme()\<close> with every field at its declared default.\<close>

definition Theme_defaults :: Theme where
  "Theme_defaults = \<lparr>
     wave_color = PyNone, progress_color = PyNone, cursor_color = None,
     bar_width = None, bar_gap = None, bar_radius = None, height = None,
     background = ''#1a1a2e'',
     border = ''1px solid rgba(255, 255, 255, 0.08)'',
     border_radius = ''12px'',
     padding = ''20px 24px'',
     font_family = ''-apple-system, BlinkMacSystemFont, system-ui, sans-serif'',
     title_color = ''rgba(255, 255, 255, 0.85)'',
     title_font_size = ''0.8rem'',
     title_font_weight = ''600'',
     title_marker_color = None, title_marker_shape = None,
     play_button_style = ''circle'',
     play_button_color = ''#ffffff'',
     play_button_bg = ''rgba(255, 255, 255, 0.12)'',
     play_button_hover_glow = None,
     time_color = ''rgba(255, 255, 255, 0.4)'',
     top_accent = None, background_pattern = None,
     card_margin_bottom = ''8px''\<rparr>"

definition DARK :: Theme where
  "DARK = Theme_defaults\<lparr>
     wave_color := PyStr ''#8888aa'',
     progress_color := PyStr ''#6c63ff'',
     cursor_color := Some ''#6c63ff'',
     bar_width := Some 2, bar_gap := Some 1, bar_radius := Some 2, height := Some 80,
     background := ''#1a1a2e'',
     border := ''1px solid rgba(255, 255, 255, 0.08)'',
     title_color := ''rgba(255, 255, 255, 0.85)'',
     play_button_style := ''circle'',
     play_button_color := ''#ffffff'',
     play_button_bg := ''rgba(108, 99, 255, 0.25)'',
     time_color := ''rgba(255, 255, 255, 0.4)''\<rparr>"

definition LIGHT :: Theme where
  "LIGHT = Theme_defaults\<lparr>
     wave_color := PyStr ''#555577'',
     progress_color := PyStr ''#4a56e2'',
     cursor_color := Some ''#4a56e2'',
     bar_width := Some 2, bar_gap := Some 1, bar_radius := Some 2, height := Some 80,
     background := ''#f8f8fc'',
     border := ''1px solid rgba(0, 0, 0, 0.08)'',
     title_color := ''rgba(0, 0, 0, 0.8)'',
     title_font_weight := ''600'',
     play_button_style := ''circle'',
     play_button_color := ''#333333'',
     play_button_bg := ''rgba(74, 86, 226, 0.12)'',
     time_color := ''rgba(0, 0, 0, 0.45)''\<rparr>"

text \<open>
  The registry object: the dictionary \<open>_themes\<close> and the name \<open>_default\<close>. A method that
  changes the registry returns the new registry, or the exception it raises.
\<close>

record ThemeRegistry =
  r_themes :: "(string \<times> Theme) list"
  r_default :: string

text \<open>An argument that may or may not be a theme: the theme, or the name of its type.\<close>

datatype pyobject = ThemeObj Theme | OtherObj string

text \<open>The argument of \<open>resolve\<close>, of type \<open>Theme | str | None\<close>.\<close>

datatype theme_arg = NoneArg | NameArg string | ThemeArg Theme

definition ThemeRegistry_init :: ThemeRegistry where
  "ThemeRegistry_init = \<lparr>r_themes = [], r_default = ''dark''\<rparr>"

definition register :: "ThemeRegistry \<Rightarrow> string \<Rightarrow> pyobject \<Rightarrow> error + ThemeRegistry" where
  "register self name theme =
     (case theme of
        OtherObj type_name \<Rightarrow> Inl (TypeError_not_a_theme type_name)
      | ThemeObj t \<Rightarrow> Inr (self\<lparr>r_themes := AList.update name t (r_themes self)\<rparr>))"

definition get :: "ThemeRegistry \<Rightarrow> string \<Rightarrow> error + Theme" where
  "get self name =
     (case map_of (r_themes self) name of
        Some t \<Rightarrow> Inr t
      | None \<Rightarrow> Inl (KeyError_unknown_theme name (sort (map fst (r_themes self)))))"

definition contains :: "ThemeRegistry \<Rightarrow> string \<Rightarrow> bool" where
  "contains self name = (name \<in> fst ` set (r_themes self))"

definition names :: "ThemeRegistry \<Rightarrow> string list" where
  "names self = sort (map fst (r_themes self))"

text \<open>The setter of the property \<open>default\<close>, which is all \<open>enable\<close> calls.\<close>

definition set_default :: "ThemeRegistry \<Rightarrow> string \<Rightarrow> error + ThemeRegistry" where
  "set_default self name =
     (if name \<notin> fst ` set (r_themes self) then Inl (KeyError_unregistered_default name)
      else Inr (self\<lparr>r_default := name\<rparr>))"

definition enable :: "ThemeRegistry \<Rightarrow> string \<Rightarrow> error + ThemeRegistry" where
  "enable self name = set_default self name"

definition resolve :: "ThemeRegistry \<Rightarrow> theme_arg \<Rightarrow> error + Theme" where
  "resolve self theme =
     (case theme of
        NoneArg \<Rightarrow>
          (case map_of (r_themes self) (r_default self) of
             None \<Rightarrow> Inl (KeyError_key (r_default self))
           | Some t \<Rightarrow> Inr t)
      | NameArg name \<Rightarrow> get self name
      | ThemeArg t \<Rightarrow> Inr t)"

text \<open>
  The module-level registry once the module is loaded: a new registry in which
  \<open>"dark"\<close> and then \<open>"light"\<close> have been registered.
\<close>

definition themes :: ThemeRegistry where
  "themes = \<lparr>r_themes = [(''dark'', DARK), (''light'', LIGHT)], r_default = ''dark''\<rparr>"

text \<open>
  One call on a registry by its user, and the registries that calls on the module-level
  registry lead to. A call that raises leaves the registry as it was.
\<close>

datatype registry_call = Register string pyobject | Enable string

definition run_call :: "ThemeRegistry \<Rightarrow> registry_call \<Rightarrow> ThemeRegistry" where
  "run_call reg c =
     (case (case c of Register n obj \<Rightarrow> register reg n obj | Enable n \<Rightarrow> enable reg n) of
        Inl e \<Rightarrow> reg
      | Inr reg' \<Rightarrow> reg')"

section \<open>Controls (\<open>_controls.py\<close>)\<close>

record Controls =
  show_play_button :: bool
  show_time :: bool
  show_volume :: bool
  show_playback_rate :: bool
  play_button_style :: "string option"
  layout :: string

definition Controls_defaults :: Controls where
  "Controls_defaults = \<lparr>show_play_button = True, show_time = True, show_volume = False,
     show_playback_rate = False, play_button_style = None, layout = ''bottom''\<rparr>"

definition effective_style :: "Controls \<Rightarrow> Theme \<Rightarrow> string" where
  "effective_style self theme =
     (case play_button_style self of
        Some style \<Rightarrow> style
      | None \<Rightarrow> Theme.play_button_style theme)"

definition shield_button_html :: "string \<Rightarrow> Theme \<Rightarrow> string" where
  \<open>shield_button_html uid theme =
     ''<button id="play-'' @ uid
       @ ''" style="\<newline>  width: 36px; height: 40px; border: none; cursor: ''
       @ ''pointer;\<newline>  display: flex; align-items: center; justify-content: ''
       @ ''center;\<newline>  padding: 0; background: transparent; position: ''
       @ ''relative;\<newline>  transition: transform 0.2s ease, filter 0.2s ease;\<newline>" ''
       @ ''onmouseover="this.style.transform='scale(1.1)';''
       @ (if truthy (play_button_hover_glow theme)
          then '' this.style.filter='' @ [CHR 0x27] @ str_of (play_button_hover_glow theme)
               @ [CHR 0x27] @ '';''
          else '''')
       @ ''"\<newline>   onmouseout="this.style.transform='scale(1)'; ''
       @ ''this.style.filter='none'"\<newline>>\<newline>  <svg style="position: absolute; ''
       @ ''inset: 0; width: 100%; height: 100%;"\<newline>       viewBox="0 0 36 40" ''
       @ ''fill="none" xmlns="http://www.w3.org/2000/svg">\<newline>    <path d="M18 0L36 ''
       @ ''6V22C36 31 27 37.5 18 40C9 37.5 0 31 0 22V6L18 0Z"\<newline>          ''
       @ ''fill="url(#copperGrad-'' @ uid
       @ '')"/>\<newline>    <defs>\<newline>      <linearGradient id="copperGrad-'' @ uid
       @ ''" x1="0" y1="0" x2="36" y2="40">\<newline>        <stop offset="0%" ''
       @ ''stop-color="#d4a96a"/>\<newline>        <stop offset="100%" ''
       @ ''stop-color="#b98b5a"/>\<newline>      </linearGradient>\<newline>    ''
       @ ''</defs>\<newline>  </svg>\<newline>  <span id="icon-'' @ uid
       @ ''" style="\<newline>    position: relative; z-index: 1; color: ''
       @ play_button_color theme
       @ '';\<newline>    font-size: 11px; margin-left: 2px; line-height: 1;\<newline>  ''
       @ ''">&#9654;</span>\<newline></button>''\<close>

definition circle_button_html :: "string \<Rightarrow> Theme \<Rightarrow> string" where
  \<open>circle_button_html uid theme =
     ''<button id="play-'' @ uid
       @ ''" style="\<newline>  width: 36px; height: 36px; border-radius: 50%; border: none; ''
       @ ''cursor: pointer;\<newline>  display: flex; align-items: center; justify-content: ''
       @ ''center;\<newline>  padding: 0; background: '' @ play_button_bg theme
       @ '';\<newline>  color: '' @ play_button_color theme
       @ ''; font-size: 13px;\<newline>  transition: transform 0.15s ease, opacity 0.15s ''
       @ ''ease;\<newline>" onmouseover="this.style.transform='scale(1.08)'; ''
       @ ''this.style.opacity='0.85'"\<newline>   ''
       @ ''onmouseout="this.style.transform='scale(1)'; ''
       @ ''this.style.opacity='1'"\<newline>>\<newline>  <span id="icon-'' @ uid
       @ ''" style="margin-left: 2px; line-height: 1;">&#9654;</span>\<newline></button>''\<close>

definition minimal_button_html :: "string \<Rightarrow> Theme \<Rightarrow> string" where
  \<open>minimal_button_html uid theme =
     ''<button id="play-'' @ uid
       @ ''" style="\<newline>  border: none; cursor: pointer; background: ''
       @ ''transparent;\<newline>  color: '' @ play_button_color theme
       @ ''; font-size: 18px; padding: 4px 8px;\<newline>  transition: opacity 0.15s ''
       @ ''ease;\<newline>" onmouseover="this.style.opacity='0.7'"\<newline>   ''
       @ ''onmouseout="this.style.opacity='1'"\<newline>>\<newline>  <span id="icon-'' @ uid
       @ ''">&#9654;</span>\<newline></button>''\<close>

definition build_controls_html :: "string \<Rightarrow> Controls \<Rightarrow> Theme \<Rightarrow> string" where
  \<open>build_controls_html uid controls theme =
     (let parts =
        (if show_play_button controls then
           (let style = effective_style controls theme in
            if style = ''shield'' then [shield_button_html uid theme]
            else if style = ''minimal'' then [minimal_button_html uid theme]
            else [circle_button_html uid theme])
         else [])
        @ (if show_time controls then
             [''<span id="time-'' @ uid
                @ ''" style="font-size: 0.72rem; font-weight: 500; color: '' @ time_color theme
                @ ''; font-variant-numeric: tabular-nums; letter-spacing: 0.02em;">0:00 / ''
                @ ''0:00</span>'']
           else [])
        @ (if show_volume controls then
             [''<input id="volume-'' @ uid
                @ ''" type="range" min="0" max="1" step="0.05" value="1" style="width: 80px; ''
                @ ''accent-color: '' @ or_else (Theme.cursor_color theme) ''#6c63ff'' @ '';">'']
           else [])
        @ (if show_playback_rate controls then
             [''<select id="rate-'' @ uid @ ''" style="background: transparent; color: ''
                @ time_color theme
                @ ''; border: 1px solid rgba(255,255,255,0.15); border-radius: 4px; padding: ''
                @ ''2px 4px; font-size: 0.7rem;"><option value="0.5">0.5x</option><option ''
                @ ''value="0.75">0.75x</option><option value="1" selected>1x</option><option ''
                @ ''value="1.25">1.25x</option><option value="1.5">1.5x</option><option ''
                @ ''value="2">2x</option></select>'']
           else [])
      in if parts = [] then ''''
         else ''<div id="controls-'' @ uid
                @ ''" style="display: flex; align-items: center; gap: 14px; margin-top: ''
                @ ''14px;">'' @ concat parts @ ''</div>'')\<close>

definition build_controls_js :: "string \<Rightarrow> Controls \<Rightarrow> string \<Rightarrow> string" where
  \<open>build_controls_js uid controls ws_var =
     (let lines =
        [''var fmt = function(s) { var m = Math.floor(s / 60); var sec = Math.floor(s % ''
           @ ''60); return m + ":" + (sec < 10 ? "0" : "") + sec;};'']
        @ (if show_play_button controls then
             [''var btn = document.getElementById("play-'' @ uid @ ''");'',
              ''var iconEl = document.getElementById("icon-'' @ uid @ ''");'',
              ''btn.addEventListener("click", function() { '' @ ws_var @ ''.playPause(); });'',
              ws_var @ ''.on("play", function() { iconEl.innerHTML = "&#9646;&#9646;"; });'',
              ws_var @ ''.on("pause", function() { iconEl.innerHTML = "&#9654;"; });'']
           else [])
        @ (if show_time controls then
             [''var timeEl = document.getElementById("time-'' @ uid @ ''");'',
              ws_var
                @ ''.on("audioprocess", function(t) { timeEl.textContent = fmt(t) + " / " + ''
                @ ''fmt('' @ ws_var @ ''.getDuration()); });'',
              ws_var @ ''.on("ready", function() { timeEl.textContent = "0:00 / " + fmt(''
                @ ws_var @ ''.getDuration()); });'']
           else [])
        @ (if show_volume controls then
             [''var volEl = document.getElementById("volume-'' @ uid @ ''");'',
              ''volEl.addEventListener("input", function() { '' @ ws_var
                @ ''.setVolume(parseFloat(this.value)); });'']
           else [])
        @ (if show_playback_rate controls then
             [''var rateEl = document.getElementById("rate-'' @ uid @ ''");'',
              ''rateEl.addEventListener("change", function() { '' @ ws_var
                @ ''.setPlaybackRate(parseFloat(this.value)); });'']
           else [])
      in join ''\<newline>'' lines)\<close>

definition controls_height :: "Controls \<Rightarrow> int" where
  "controls_height controls =
     (if \<not> (show_play_button controls \<or> show_time controls
             \<or> show_volume controls \<or> show_playback_rate controls)
      then 0 else 54)"

section \<open>Plugins (\<open>_plugins.py\<close>)\<close>

record PluginConfig =
  name :: string
  options :: pydict
  js_source :: "string option"

definition to_js_create :: "PluginConfig \<Rightarrow> string" where
  \<open>to_js_create self =
     (let opts = (if options self \<noteq> [] then json_dumps (PyDict (options self)) else ''{}'')
      in name self @ ''.create('' @ opts @ '')'')\<close>

section \<open>Audio sources (\<open>_audio.py\<close>)\<close>

text \<open>
  What a caller may pass as audio: a torch tensor or a numpy array (their samples are of
  a type \<open>'a\<close> that the model leaves open), a string, a \<open>pathlib.Path\<close> (carried as the
  text \<open>str()\<close> gives it), or an object of any other type (carried as the name of its
  type).
\<close>

datatype 'a audio_input =
    TorchTensor 'a
  | NdArray 'a
  | Str string
  | PathObj string
  | OtherAudio string

text \<open>
  What lies outside the repository: torch's conversion of a tensor to an array, the
  WAV encoder and the file decoder of the soundfile library, the text of the bundled
  \<open>wavesurfer.min.js\<close>, and the 32 hexadecimal digits of the \<open>n\<close>-th identifier that
  \<open>uuid.uuid4()\<close> draws. Each of the three library calls either returns or raises an
  exception of the library's choosing, carried as its text: the conversion gives an
  array, the encoder the bytes of the WAV file (each below 256) for the samples and the
  rate it accepts, the decoder the samples of a file and their rate.
\<close>

record 'a externals =
  torch_to_numpy :: "'a \<Rightarrow> string + 'a"
  sf_write :: "'a \<Rightarrow> int \<Rightarrow> string + nat list"
  sf_read :: "string \<Rightarrow> string + 'a \<times> int"
  WAVESURFER_JS :: string
  uuid4_hex :: "nat \<Rightarrow> string"

definition B64_ALPHABET :: string where
  "B64_ALPHABET = ''ABCDEFGHIJKLMNOPQRSTUVWXYZabcdefghijklmnopqrstuvwxyz0123456789+/''"

definition b64_char :: "nat \<Rightarrow> char" where
  "b64_char i = B64_ALPHABET ! (i mod 64)"

fun b64encode :: "nat list \<Rightarrow> string" where
  "b64encode [] = []"
| "b64encode [a] = [b64_char (a div 4), b64_char ((a mod 4) * 16), CHR ''='', CHR ''='']"
| "b64encode [a, b] =
     [b64_char (a div 4), b64_char ((a mod 4) * 16 + b div 16), b64_char ((b mod 16) * 4),
      CHR ''='']"
| "b64encode (a # b # c # rest) =
     [b64_char (a div 4), b64_char ((a mod 4) * 16 + b div 16),
      b64_char ((b mod 16) * 4 + c div 64), b64_char (c mod 64)] @ b64encode rest"

definition audio_to_data_url :: "'a externals \<Rightarrow> 'a \<Rightarrow> int \<Rightarrow> error + string" where
  \<open>audio_to_data_url ext audio sr =
     (case sf_write ext audio sr of
        Inl raised \<Rightarrow> Inl (SoundFileError raised)
      | Inr buf \<Rightarrow>
          (let b64 = b64encode buf
           in Inr (''data:audio/wav;base64,'' @ b64)))\<close>

definition load_audio_file :: "'a externals \<Rightarrow> string \<Rightarrow> error + 'a \<times> int" where
  "load_audio_file ext path =
     (case sf_read ext path of
        Inl raised \<Rightarrow> Inl (SoundFileError raised)
      | Inr (data, rate) \<Rightarrow> Inr (data, rate))"

definition resolve_audio ::
    "'a externals \<Rightarrow> 'a audio_input \<Rightarrow> int option \<Rightarrow> error + string \<times> int option" where
  \<open>resolve_audio ext audio sr =
     (let from_array = (\<lambda>a.
            case sr of
              None \<Rightarrow> Inl ValueError_sr_required
            | Some rate \<Rightarrow>
                (case audio_to_data_url ext a rate of
                   Inl e \<Rightarrow> Inl e
                 | Inr data_url \<Rightarrow> Inr (data_url, Some rate)));
          from_string = (\<lambda>path_str.
            if startswith path_str ''http://'' \<or> startswith path_str ''https://''
            then Inr (path_str, sr)
            else (case load_audio_file ext path_str of
                    Inl e \<Rightarrow> Inl e
                  | Inr (data, file_sr) \<Rightarrow>
                      (case audio_to_data_url ext data file_sr of
                         Inl e \<Rightarrow> Inl e
                       | Inr data_url \<Rightarrow> Inr (data_url, Some file_sr))))
      in case audio of
           TorchTensor t \<Rightarrow>
             (case torch_to_numpy ext t of
                Inl raised \<Rightarrow> Inl (TorchError raised)
              | Inr a \<Rightarrow> from_array a)
         | NdArray a \<Rightarrow> from_array a
         | Str s \<Rightarrow> from_string s
         | PathObj s \<Rightarrow> from_string s
         | OtherAudio type_name \<Rightarrow> Inl (TypeError_audio type_name))\<close>

section \<open>HTML and JavaScript generation (\<open>_html.py\<close>)\<close>

text \<open>
  \<open>html.escape(s, quote=True)\<close>: five replacements one after the other, the ampersand
  first.
\<close>

definition html_escape :: "string \<Rightarrow> string" where
  \<open>html_escape s =
     replace (CHR 0x27) ''&#x27;''
       (replace (CHR 0x22) ''&quot;''
         (replace CHR ''>'' ''&gt;''
           (replace CHR ''<'' ''&lt;''
             (replace CHR ''&'' ''&amp;'' s))))\<close>

text \<open>\<open>s.split(c)\<close> for a separator of one character.\<close>

fun split_on :: "char \<Rightarrow> string \<Rightarrow> string list" where
  "split_on c [] = [[]]"
| "split_on c (x # xs) =
     (if x = c then [] # split_on c xs
      else (case split_on c xs of [] \<Rightarrow> [[x]] | y # ys \<Rightarrow> (x # y) # ys))"

definition build_title_html :: "string \<Rightarrow> Theme \<Rightarrow> string" where
  \<open>build_title_html title theme =
     (let marker =
        (if truthy (title_marker_color theme) \<and> truthy (title_marker_shape theme) then
           ''<span style="width: 8px; height: 9px; flex-shrink: 0; background: ''
             @ str_of (title_marker_color theme) @ ''; clip-path: ''
             @ str_of (title_marker_shape theme) @ '';"></span>''
         else '''');
          safe_title = html_escape title
      in ''<div style="font-size: '' @ title_font_size theme @ ''; font-weight: ''
           @ title_font_weight theme @ ''; color: '' @ title_color theme
           @ ''; margin-bottom: 14px; display: flex; align-items: center; gap: 10px; ''
           @ ''font-family: '' @ font_family theme @ '';">'' @ marker @ safe_title @ ''</div>'')\<close>

definition build_container_html :: "string \<Rightarrow> string option \<Rightarrow> Theme \<Rightarrow> string \<Rightarrow> string" where
  \<open>build_container_html uid title theme controls_html =
     (let accent =
        (if truthy (top_accent theme) then
           ''<div style="position: absolute; top: 0; left: 0; right: 0; height: 2px; ''
             @ ''background: '' @ str_of (top_accent theme) @ ''; z-index: 1;"></div>''
         else '''');
          pattern =
        (if truthy (background_pattern theme) then
           ''<div style="position: absolute; inset: 0; background-image: ''
             @ str_of (background_pattern theme) @ ''; pointer-events: none; z-index: 0;"></div>''
         else '''');
          title_html =
        (case title of
           Some t \<Rightarrow> if t \<noteq> [] then build_title_html t theme else ''''
         | None \<Rightarrow> '''');
          controls_section = controls_html
      in ''<div id="player-'' @ uid @ ''" style="background: '' @ background theme
           @ ''; border-radius: '' @ border_radius theme @ ''; padding: '' @ padding theme
           @ ''; border: '' @ border theme @ ''; font-family: '' @ font_family theme
           @ ''; margin-bottom: '' @ card_margin_bottom theme
           @ ''; position: relative; overflow: hidden;">'' @ accent @ pattern
           @ ''<div style="position: relative; z-index: 1;">'' @ title_html @ ''<div id="waveform-''
           @ uid @ ''" style="border-radius: 8px; overflow: hidden;"></div>'' @ controls_section
           @ ''</div></div>'')\<close>

definition build_wavesurfer_js ::
    "string \<Rightarrow> string \<Rightarrow> WaveSurferOptions \<Rightarrow> EventHandler list option
       \<Rightarrow> PluginConfig list option \<Rightarrow> string \<Rightarrow> string" where
  \<open>build_wavesurfer_js uid src_url opts events plugins controls_js =
     (let js_opts = to_js_dict opts;
          js_opts = AList.update ''container'' (PyStr (''#waveform-'' @ uid)) js_opts;
          js_opts = AList.update ''url'' (PyStr src_url) js_opts;
          js_opts = dict_setdefault js_opts ''hideScrollbar'' (PyBool True);
          js_opts = dict_setdefault js_opts ''cursorWidth'' (PyInt 2);
          opts_json = json_dumps (PyDict js_opts);
          lines =
            [''(function() {'',
             ''  var ws = WaveSurfer.create('' @ opts_json @ '');'']
            @ (case plugins of
                 None \<Rightarrow> []
               | Some ps \<Rightarrow> map (\<lambda>plugin. ''  ws.registerPlugin(''
                                                               @ to_js_create plugin @ '');'') ps)
            @ (case events of
                 None \<Rightarrow> []
               | Some hs \<Rightarrow> map (\<lambda>handler. ''  '' @ to_js handler ''ws'') hs)
            @ (if controls_js \<noteq> [] then
                 map (\<lambda>line. ''  '' @ line) (split_on CHR ''\<newline>'' controls_js)
               else [])
            @ [''})();'']
      in join ''\<newline>'' lines)\<close>

definition build_player_html ::
    "string \<Rightarrow> string \<Rightarrow> string option \<Rightarrow> WaveSurferOptions \<Rightarrow> Theme \<Rightarrow> Controls
       \<Rightarrow> EventHandler list option \<Rightarrow> PluginConfig list option \<Rightarrow> string" where
  \<open>build_player_html uid src_url title opts theme controls events plugins =
     (let controls_html = build_controls_html uid controls theme;
          controls_js = build_controls_js uid controls ''ws'';
          container = build_container_html uid title theme controls_html;
          js_block = build_wavesurfer_js uid src_url opts events plugins controls_js
      in container @ ''\<newline><script>\<newline>'' @ js_block @ ''\<newline></script>'')\<close>

text \<open>
  The two functions below are declared with the parameters listed next to them, none
  of which has a default. Every caller passes all its arguments by keyword;
  \<open>bind_keywords\<close> is what Python does with them before the body runs: the first keyword
  that names no parameter is a \<open>TypeError\<close>, and so is a parameter left without a value.
\<close>

definition bind_keywords :: "string \<Rightarrow> string list \<Rightarrow> string list \<Rightarrow> error + unit" where
  "bind_keywords fname params keywords =
     (case filter (\<lambda>k. k \<notin> set params) keywords of
        k # _ \<Rightarrow> Inl (TypeError_unexpected_keyword fname k)
      | [] \<Rightarrow>
          (case filter (\<lambda>p. p \<notin> set keywords) params of
             [] \<Rightarrow> Inr ()
           | missing \<Rightarrow> Inl (TypeError_missing_arguments fname missing)))"

definition wrap_in_iframe_params :: "string list" where
  "wrap_in_iframe_params = [''body_html'', ''height'']"

definition wrap_in_iframe :: "string \<Rightarrow> string \<Rightarrow> int \<Rightarrow> string" where
  \<open>wrap_in_iframe wavesurfer_js body_html iframe_height =
     (let full_page =
            ''<!DOCTYPE html><html><head><style>body { margin: 0; background: ''
              @ ''transparent; }</style><script>'' @ wavesurfer_js @ ''</script></head><body>''
              @ body_html @ ''</body></html>'';
          escaped = html_escape full_page
      in ''<iframe srcdoc="'' @ escaped @ ''" style="width: 100%; height: ''
           @ str_int iframe_height
           @ ''px; border: none; overflow: hidden;" allow="autoplay"></iframe>'')\<close>

definition estimate_player_height_params :: "string list" where
  "estimate_player_height_params = [''title'', ''theme'', ''controls'']"

definition estimate_player_height :: "string option \<Rightarrow> Theme \<Rightarrow> Controls \<Rightarrow> int" where
  "estimate_player_height title theme controls =
     (let padding_v = 40;
          title_h = (if truthy title then 28 + 14 else 0);
          waveform_h = (case Theme.height theme of
                          Some h \<Rightarrow> if h \<noteq> 0 then h else 80
                        | None \<Rightarrow> 80);
          ctrl_h = controls_height controls;
          margin = 8
      in padding_v + title_h + waveform_h + ctrl_h + margin)"

section \<open>The player (\<open>_core.py\<close>)\<close>

record 'a WaveSurfer =
  audio :: "'a audio_input"
  sr :: "int option"
  title :: "string option"
  theme :: Theme
  controls :: Controls
  events :: "EventHandler list"
  plugins :: "PluginConfig list"
  extra_options :: pydict

text \<open>\<open>xs or None\<close> for a list.\<close>

definition or_None :: "'b list \<Rightarrow> 'b list option" where
  "or_None xs = (if xs = [] then None else Some xs)"

text \<open>\<open>str.lower\<close> on the code points 0 to 255.\<close>

definition lower_char :: "char \<Rightarrow> char" where
  "lower_char c = (let n = of_char c :: nat in
     if (65 \<le> n \<and> n \<le> 90) \<or> (192 \<le> n \<and> n \<le> 222 \<and> n \<noteq> 215) then char_of (n + 32) else c)"

definition lower :: "string \<Rightarrow> string" where
  "lower s = map lower_char s"

definition build_options :: "'a WaveSurfer \<Rightarrow> error + WaveSurferOptions" where
  "build_options self =
     (let merged = waveform_overrides (theme self);
          merged = dict_update merged (extra_options self)
      in from_kwargs merged)"

text \<open>
  \<open>to_html\<close>. The argument \<open>n\<close> says how many identifiers \<open>uuid4\<close> has drawn before the
  call. The calls of \<open>estimate_player_height\<close> and \<open>wrap_in_iframe\<close> carry the keywords
  the source writes at this call site.
\<close>

definition to_html :: "'a externals \<Rightarrow> nat \<Rightarrow> 'a WaveSurfer \<Rightarrow> error + string" where
  "to_html ext n self =
     (case resolve_audio ext (audio self) (sr self) of
        Inl e \<Rightarrow> Inl e
      | Inr (src_url, sr') \<Rightarrow>
          (let uid = take 12 (uuid4_hex ext n)
           in case build_options self of
                Inl e \<Rightarrow> Inl e
              | Inr opts \<Rightarrow>
                  (let player = build_player_html uid src_url (title self) opts (theme self)
                                  (controls self) (or_None (events self)) (or_None (plugins self))
                   in case bind_keywords ''estimate_player_height'' estimate_player_height_params
                             [''title'', ''theme'', ''controls'', ''options'', ''plugins''] of
                        Inl e \<Rightarrow> Inl e
                      | Inr _ \<Rightarrow>
                          (let height_px = estimate_player_height (title self) (theme self)
                                             (controls self);
                               plugin_names = (if plugins self \<noteq> []
                                               then Some (map (\<lambda>p. lower (name p)) (plugins self))
                                               else None)
                           in case bind_keywords ''wrap_in_iframe'' wrap_in_iframe_params
                                     [''body_html'', ''height'', ''plugin_names''] of
                                Inl e \<Rightarrow> Inl e
                              | Inr _ \<Rightarrow>
                                  Inr (wrap_in_iframe (WAVESURFER_JS ext) player height_px)))))"

definition repr_html :: "'a externals \<Rightarrow> nat \<Rightarrow> 'a WaveSurfer \<Rightarrow> error + string" where
  "repr_html ext n self = to_html ext n self"

section \<open>Layouts (\<open>_layouts.py\<close>)\<close>

text \<open>
  The loop of \<open>compare\<close> over the players, with the cards and the largest height so far
  as its state; \<open>n\<close> counts the identifiers drawn.
\<close>

fun compare_loop ::
    "'a externals \<Rightarrow> nat \<Rightarrow> 'a WaveSurfer list \<Rightarrow> string list \<Rightarrow> int
       \<Rightarrow> error + string list \<times> int" where
  "compare_loop ext n [] cards max_card_height = Inr (cards, max_card_height)"
| "compare_loop ext n (player # rest) cards max_card_height =
     (case resolve_audio ext (audio player) (sr player) of
        Inl e \<Rightarrow> Inl e
      | Inr (src_url, sr') \<Rightarrow>
          (let uid = take 12 (uuid4_hex ext n)
           in case build_options player of
                Inl e \<Rightarrow> Inl e
              | Inr opts \<Rightarrow>
                  (let card = build_player_html uid src_url (title player) opts (theme player)
                                (controls player) (or_None (events player))
                                (or_None (plugins player));
                       cards = cards @ [card]
                   in case bind_keywords ''estimate_player_height'' estimate_player_height_params
                             [''title'', ''theme'', ''controls''] of
                        Inl e \<Rightarrow> Inl e
                      | Inr _ \<Rightarrow>
                          (let h = estimate_player_height (title player) (theme player)
                                     (controls player);
                               max_card_height = (if h > max_card_height then h
                                                  else max_card_height)
                           in compare_loop ext (Suc n) rest cards max_card_height))))"

definition compare :: "'a externals \<Rightarrow> nat \<Rightarrow> 'a WaveSurfer list \<Rightarrow> int \<Rightarrow> error + string" where
  \<open>compare ext n players columns =
     (case compare_loop ext n players [] 0 of
        Inl e \<Rightarrow> Inl e
      | Inr (cards, max_card_height) \<Rightarrow>
          (let (grid_style, total_height) =
                 (if columns > 1 then
                    (''display: grid; grid-template-columns: repeat('' @ str_int columns
                       @ '', 1fr); gap: 8px;'',
                     (let rows = - ((- int (length cards)) div columns)
                      in rows * max_card_height + 8))
                  else
                    (''display: grid; gap: 8px;'',
                     int (length cards) * max_card_height));
               body = ''<div style="'' @ grid_style @ ''">'' @ concat cards @ ''</div>''
           in case bind_keywords ''wrap_in_iframe'' wrap_in_iframe_params
                     [''body_html'', ''height''] of
                Inl e \<Rightarrow> Inl e
              | Inr _ \<Rightarrow> Inr (wrap_in_iframe (WAVESURFER_JS ext) body total_height)))\<close>

definition grid :: "'a externals \<Rightarrow> nat \<Rightarrow> 'a WaveSurfer list \<Rightarrow> int \<Rightarrow> error + string" where
  "grid ext n players columns = compare ext n players columns"

section \<open>The specification's wording of the serialisation\<close>

text \<open>
  The serialisation as the specification words it: encode the wire record without the
  raw-code entry and, when the field is set, put the key and the code in front of the last
  closing brace of that text.
\<close>

definition insert_before_last :: "char \<Rightarrow> string \<Rightarrow> string \<Rightarrow> string" where
  "insert_before_last c ins s =
     rev (tl (dropWhile (\<lambda>x. x \<noteq> c) (rev s))) @ ins @ [c] @ rev (takeWhile (\<lambda>x. x \<noteq> c) (rev s))"

definition serialize_spec :: "WaveSurferOptions \<Rightarrow> string" where
  \<open>serialize_spec self =
     (let wire = to_js_dict self;
          encoded = json_dumps (PyDict (filter (\<lambda>kv. fst kv \<noteq> ''renderFunction'') wire))
      in if render_function self = PyNone then json_dumps (PyDict wire)
         else insert_before_last CHR ''}'' ('', "renderFunction": '' @ py_str (render_function self)) encoded)\<close>

section \<open>Notions used in the proofs\<close>

text \<open>
  The text \<open>json.dumps\<close> gives a dictionary, without its closing brace.
\<close>

definition dict_body :: "pydict \<Rightarrow> string" where
  "dict_body d =
     ''{'' @ join '', '' (map (\<lambda>kv. json_string (fst kv) @ '': '' @ json_dumps (snd kv)) d)"

text \<open>
  Whether somewhere in a list the element \<open>c\<close> is followed at once by \<open>d\<close>.
\<close>

fun has_pair :: "'a \<Rightarrow> 'a \<Rightarrow> 'a list \<Rightarrow> bool" where
  "has_pair c d (x # y # ys) = ((x = c \<and> y = d) \<or> has_pair c d (y # ys))"
| "has_pair c d [x] = False"
| "has_pair c d [] = False"

section \<open>Concrete inputs\<close>

text \<open>
  Option sets as the initialiser stores them: one with a bar width, one with a bar width
  and a render function, one with a render function only.
\<close>

definition example_options :: WaveSurferOptions where
  "example_options = init_fields [(''bar_width'', PyInt 5)]"

definition code_options :: WaveSurferOptions where
  "code_options = init_fields
     [(''bar_width'', PyInt 3),
      (''render_function'', PyStr ''function(peaks, ctx) { ctx.fillRect(0,0,100,100); }'')]"

definition only_code_options :: WaveSurferOptions where
  "only_code_options = init_fields [(''render_function'', PyStr ''function() {}'')]"

text \<open>
  A handler for an event name outside the table.
\<close>

definition hover_handler :: EventHandler where
  \<open>hover_handler = \<lparr>event = ''hover'', js = ''console.log("hover")'', once = False\<rparr>\<close>

text \<open>
  Externals whose arrays are lists of bytes. The encoder returns them as they are when the
  rate is positive and fits a signed 32-bit integer, and raises otherwise, as the
  library does for the rates 0 and \<open>2 ^ 31\<close>; the decoder finds no file.
\<close>

definition silent_externals :: "nat list externals" where
  "silent_externals = \<lparr>torch_to_numpy = (\<lambda>t. Inr t),
     sf_write = (\<lambda>a r. if 0 < r \<and> r < 2 ^ 31 then Inr a else Inl ''Error opening file''),
     sf_read = (\<lambda>p. Inl ''Error opening file''), WAVESURFER_JS = ''/* wavesurfer.js */'',
     uuid4_hex = (\<lambda>n. ''0123456789abcdef0123456789abcdef'')\<rparr>"

text \<open>
  Players whose audio is an HTTPS URL, with the dark theme and the default controls: one
  without a title, one with the title of the escaping test.
\<close>

definition url_player :: "nat list WaveSurfer" where
  "url_player = \<lparr>audio = Str ''https://example.com/a.wav'', sr = None, title = None,
     theme = DARK, controls = Controls_defaults, events = [], plugins = [],
     extra_options = []\<rparr>"

definition xss_player :: "nat list WaveSurfer" where
  \<open>xss_player = \<lparr>audio = Str ''https://example.com/a.wav'', sr = None,
     title = Some ''<script>alert("xss")</script>'',
     theme = DARK, controls = Controls_defaults, events = [], plugins = [],
     extra_options = []\<rparr>\<close>

section \<open>Verified properties\<close>

subsection \<open>The wire record\<close>

lemma map_fst_fields_items: "map fst (fields_items self) = field_names"
  by (simp add: fields_items_def field_names_def)

lemma camel_names: "map camel_key field_names = map snd (filter (\<lambda>(k, v). k \<noteq> ''container'') SNAKE_TO_CAMEL)"
  by code_simp

lemma distinct_camel: "distinct (map camel_key field_names)"
  by code_simp

lemma update_fresh: "k \<notin> fst ` set acc \<Longrightarrow> AList.update k v acc = acc @ [(k, v)]"
  by (induction acc) auto

lemma fold_update_fresh:
  "distinct (map fst acc @ map f (map fst (filter (\<lambda>kv. snd kv \<noteq> PyNone) kvs))) \<Longrightarrow>
   fold (\<lambda>(n, v) r. if v = PyNone then r else AList.update (f n) v r) kvs acc
     = acc @ map (\<lambda>kv. (f (fst kv), snd kv)) (filter (\<lambda>kv. snd kv \<noteq> PyNone) kvs)"
proof (induction kvs arbitrary: acc)
  case Nil
  then show ?case by simp
next
  case (Cons kv kvs)
  obtain n v where kv: "kv = (n, v)" by (cases kv)
  show ?case
  proof (cases "v = PyNone")
    case True
    with Cons kv show ?thesis by simp
  next
    case False
    from Cons.prems kv False have fresh: "f n \<notin> fst ` set acc" by auto
    from Cons.prems kv False
    have d: "distinct (map fst (acc @ [(f n, v)]) @ map f (map fst (filter (\<lambda>kv. snd kv \<noteq> PyNone) kvs)))"
      by auto
    show ?thesis using Cons.IH[OF d] kv False update_fresh[OF fresh] by simp
  qed
qed

lemma to_js_dict_eq:
  "to_js_dict self = map (\<lambda>kv. (camel_key (fst kv), snd kv)) (filter (\<lambda>kv. snd kv \<noteq> PyNone) (fields_items self))"
proof -
  have "distinct (map camel_key (map fst (filter (\<lambda>kv. snd kv \<noteq> PyNone) (fields_items self))))"
    using distinct_camel map_fst_fields_items[of self]
    by (metis distinct_map_filter map_map)
  then show ?thesis
    unfolding to_js_dict_def using fold_update_fresh[of "[]" camel_key "fields_items self"] by simp
qed

lemma table_covers_fields: "\<forall>n \<in> set field_names. map_of SNAKE_TO_CAMEL n = Some (camel_key n)"
  by code_simp

lemma map_of_renamed_filter:
  "distinct (map f (map fst xs)) \<Longrightarrow> (n, v) \<in> set xs \<Longrightarrow>
   map_of (map (\<lambda>kv. (f (fst kv), snd kv)) (filter P xs)) (f n) = (if P (n, v) then Some v else None)"
proof (induction xs)
  case Nil
  then show ?case by simp
next
  case (Cons x xs)
  show ?case
  proof (cases "x = (n, v)")
    case True
    have "f n \<notin> f ` fst ` set xs" using Cons.prems(1) True by (auto simp: image_image)
    then have "map_of (map (\<lambda>kv. (f (fst kv), snd kv)) (filter P xs)) (f n) = None"
      by (force simp: map_of_eq_None_iff image_image)
    then show ?thesis using True by simp
  next
    case False
    then have mem: "(n, v) \<in> set xs" using Cons.prems(2) by simp
    then have "f (fst x) \<noteq> f n" using Cons.prems(1) by (force simp: image_image)
    then show ?thesis using Cons.IH mem Cons.prems(1) by simp
  qed
qed

lemma distinct_camel_items: "distinct (map camel_key (map fst (fields_items self)))"
  by (simp only: map_fst_fields_items distinct_camel)

lemma map_of_to_js_dict:
  "(n, v) \<in> set (fields_items self) \<Longrightarrow>
   map_of (to_js_dict self) (camel_key n) = (if v = PyNone then None else Some v)"
  unfolding to_js_dict_eq
  using map_of_renamed_filter[OF distinct_camel_items, of n v self "\<lambda>kv. snd kv \<noteq> PyNone"]
  by simp

lemma distinct_keys_to_js_dict: "distinct (map fst (to_js_dict self))"
proof -
  have "map fst (to_js_dict self) = map camel_key (map fst (filter (\<lambda>kv. snd kv \<noteq> PyNone) (fields_items self)))"
    unfolding to_js_dict_eq by simp
  moreover have "distinct \<dots>"
    using distinct_camel_items[of self] by (metis distinct_map_filter map_map)
  ultimately show ?thesis by simp
qed

text \<open>
  C5. For every option set, the wire record is the list of the fields that are not
  \<open>None\<close>, in declaration order, each under the name \<open>camel_key\<close> gives it. So its
  keys are pairwise different, every field has an entry in \<open>_SNAKE_TO_CAMEL\<close> and that
  entry is its key, a field that is \<open>None\<close> has no key, and a field with a value has its
  one key, bound to that value.
\<close>

theorem to_js_dict_wire_record:
  "to_js_dict self = map (\<lambda>kv. (camel_key (fst kv), snd kv))
                         (filter (\<lambda>kv. snd kv \<noteq> PyNone) (fields_items self))
   \<and> distinct (map fst (to_js_dict self))
   \<and> (\<forall>(n, v) \<in> set (fields_items self).
         map_of SNAKE_TO_CAMEL n = Some (camel_key n)
         \<and> map_of (to_js_dict self) (camel_key n) = (if v = PyNone then None else Some v))"
proof (intro conjI)
  show "to_js_dict self = map (\<lambda>kv. (camel_key (fst kv), snd kv))
                         (filter (\<lambda>kv. snd kv \<noteq> PyNone) (fields_items self))"
    by (rule to_js_dict_eq)
  show "distinct (map fst (to_js_dict self))" by (rule distinct_keys_to_js_dict)
  show "\<forall>(n, v) \<in> set (fields_items self).
         map_of SNAKE_TO_CAMEL n = Some (camel_key n)
         \<and> map_of (to_js_dict self) (camel_key n) = (if v = PyNone then None else Some v)"
  proof (clarify, intro conjI)
    fix n v assume mem: "(n, v) \<in> set (fields_items self)"
    then have "n \<in> set field_names"
      using map_fst_fields_items[of self] by (metis fst_conv image_eqI set_map)
    then show "map_of SNAKE_TO_CAMEL n = Some (camel_key n)"
      using table_covers_fields by blast
    show "map_of (to_js_dict self) (camel_key n) = (if v = PyNone then None else Some v)"
      using mem by (rule map_of_to_js_dict)
  qed
qed

lemma example_options_items:
  "(''bar_width'', PyInt 5) \<in> set (fields_items example_options)"
  "(''wave_color'', PyNone) \<in> set (fields_items example_options)"
  by code_simp+

theorem to_js_dict_wire_record_witness:
  "map_of SNAKE_TO_CAMEL ''bar_width'' = Some ''barWidth''
   \<and> map_of (to_js_dict example_options) ''barWidth'' = Some (PyInt 5)
   \<and> map_of (to_js_dict example_options) ''waveColor'' = None"
proof -
  have ck: "camel_key ''bar_width'' = ''barWidth''" "camel_key ''wave_color'' = ''waveColor''"
    by code_simp+
  from to_js_dict_wire_record[of example_options] example_options_items
  show ?thesis unfolding ck[symmetric] by fastforce
qed

subsection \<open>Event handlers\<close>

lemma EVENT_PARAMS_size: "length EVENT_PARAMS = 24 \<and> distinct (map fst EVENT_PARAMS)"
  by (simp add: EVENT_PARAMS_def)

text \<open>
  C10. An event handler whose event name is not a key of \<open>EVENT_PARAMS\<close> (which has 24
  keys, see \<open>EVENT_PARAMS_size\<close>) is given the empty parameter list: \<open>to_js\<close>, which has
  no failing branch, returns the binding statement with \<open>function()\<close>.
\<close>

theorem to_js_unknown_event:
  \<open>event self \<notin> fst ` set EVENT_PARAMS \<Longrightarrow>
   to_js self ws_var =
     ws_var @ ''.'' @ (if once self then ''once'' else ''on'') @ ''("'' @ event self
       @ ''", function() { '' @ js self @ '' });''\<close>
proof -
  assume "event self \<notin> fst ` set EVENT_PARAMS"
  then have "map_of EVENT_PARAMS (event self) = None"
    by (simp add: map_of_eq_None_iff)
  then show ?thesis
    by (simp add: to_js_def dict_get_def)
qed

theorem to_js_unknown_event_witness:
  \<open>event hover_handler \<notin> fst ` set EVENT_PARAMS
   \<and> to_js hover_handler ''ws'' = ''ws.on("hover", function() { console.log("hover") });''\<close>
proof -
  have h: "event hover_handler \<notin> fst ` set EVENT_PARAMS"
    by (simp add: hover_handler_def EVENT_PARAMS_def)
  show ?thesis
    using h to_js_unknown_event[OF h, of "''ws''"] by (simp add: hover_handler_def)
qed

subsection \<open>Audio sources\<close>

text \<open>
  C8. For a numpy array \<open>resolve_audio\<close> raises the \<open>ValueError\<close> that asks for a sample
  rate exactly when none is given. With a rate it hands the samples and the rate to the
  WAV encoder: when the encoder returns, the result is the data URL of the encoded bytes
  and that rate, and when the encoder raises, its exception leaves \<open>resolve_audio\<close>. A
  string that starts with \<open>http://\<close> or \<open>https://\<close> comes back as it is, with the rate that
  was passed, given or not. An object of any other type is a \<open>TypeError\<close> that names the
  type.
\<close>

theorem resolve_audio_dispatch:
  "(resolve_audio ext (NdArray a) rate_opt = Inl ValueError_sr_required \<longleftrightarrow> rate_opt = None)
   \<and> resolve_audio ext (NdArray a) (Some rate)
       = (case sf_write ext a rate of
            Inl raised \<Rightarrow> Inl (SoundFileError raised)
          | Inr buf \<Rightarrow> Inr (''data:audio/wav;base64,'' @ b64encode buf, Some rate))
   \<and> (startswith s ''http://'' \<or> startswith s ''https://''
        \<longrightarrow> resolve_audio ext (Str s) rate_opt = Inr (s, rate_opt))
   \<and> resolve_audio ext (OtherAudio type_name) rate_opt = Inl (TypeError_audio type_name)"
  by (cases rate_opt)
     (auto simp: resolve_audio_def audio_to_data_url_def split: sum.splits)

theorem resolve_audio_dispatch_witness:
  "startswith ''https://example.com/a.wav'' ''https://''
   \<and> resolve_audio silent_externals (Str ''https://example.com/a.wav'') None
       = Inr (''https://example.com/a.wav'', None)
   \<and> resolve_audio silent_externals (NdArray [77, 97, 110]) (Some 24000)
       = Inr (''data:audio/wav;base64,TWFu'', Some 24000)
   \<and> resolve_audio silent_externals (NdArray [77, 97, 110]) None = Inl ValueError_sr_required"
proof -
  have h: "startswith ''https://example.com/a.wav'' ''https://''"
    by (simp add: startswith_def)
  have w: "sf_write silent_externals [77, 97, 110] 24000 = Inr [77, 97, 110]"
    by (simp add: silent_externals_def)
  from resolve_audio_dispatch[of silent_externals "[77, 97, 110]" None 24000
      "''https://example.com/a.wav''" "''dict''"] h
  show ?thesis by (simp add: w b64_char_def B64_ALPHABET_def)
qed

text \<open>
  With the rate 0, which the encoder refuses, an array and a rate give no data URL: the
  encoder's exception comes out.
\<close>

theorem resolve_audio_rate_zero_counterexample:
  "resolve_audio silent_externals (NdArray [77, 97, 110]) (Some 0)
     = Inl (SoundFileError ''Error opening file'')"
  by (simp add: resolve_audio_def audio_to_data_url_def silent_externals_def)

subsection \<open>The theme registry\<close>

lemma themes_from_register:
  "register ThemeRegistry_init ''dark'' (ThemeObj DARK)
     = Inr \<lparr>r_themes = [(''dark'', DARK)], r_default = ''dark''\<rparr>
   \<and> register \<lparr>r_themes = [(''dark'', DARK)], r_default = ''dark''\<rparr> ''light'' (ThemeObj LIGHT)
     = Inr themes"
  by (simp add: register_def ThemeRegistry_init_def themes_def)

lemma keys_update: "fst ` set (AList.update k v al) = insert k (fst ` set al)"
  by (induction al) auto

lemma resolve_None_registered:
  "r_default reg \<in> fst ` set (r_themes reg) \<Longrightarrow>
   \<exists>t. map_of (r_themes reg) (r_default reg) = Some t \<and> resolve reg NoneArg = Inr t"
proof -
  assume "r_default reg \<in> fst ` set (r_themes reg)"
  then have "map_of (r_themes reg) (r_default reg) \<noteq> None"
    by (simp add: map_of_eq_None_iff)
  then obtain t where "map_of (r_themes reg) (r_default reg) = Some t"
    by blast
  then show ?thesis by (simp add: resolve_def)
qed

lemma enable_Inr:
  "enable reg n = Inr reg' \<Longrightarrow>
   n \<in> fst ` set (r_themes reg) \<and> reg' = reg\<lparr>r_default := n\<rparr>"
  by (auto simp: enable_def set_default_def split: if_splits)

lemma run_call_keeps_default_registered:
  "r_default reg \<in> fst ` set (r_themes reg) \<Longrightarrow>
   r_default (run_call reg c) \<in> fst ` set (r_themes (run_call reg c))"
proof (cases c)
  case (Register n obj)
  assume inv: "r_default reg \<in> fst ` set (r_themes reg)"
  show ?thesis
  proof (cases obj)
    case (ThemeObj t)
    have "fst ` set (AList.update n t (r_themes reg)) = insert n (fst ` set (r_themes reg))"
      by (rule keys_update)
    then show ?thesis using inv Register ThemeObj by (simp add: run_call_def register_def)
  next
    case (OtherObj tn)
    then show ?thesis using inv Register by (simp add: run_call_def register_def)
  qed
next
  case (Enable n)
  assume inv: "r_default reg \<in> fst ` set (r_themes reg)"
  then show ?thesis using Enable
    by (simp add: run_call_def enable_def set_default_def)
qed

lemma reachable_default_registered:
  "r_default (foldl run_call themes calls) \<in> fst ` set (r_themes (foldl run_call themes calls))"
proof (induction calls rule: rev_induct)
  case Nil
  show ?case by (simp add: themes_def)
next
  case (snoc c calls)
  then show ?case by (simp add: run_call_keeps_default_registered)
qed

text \<open>
  C4, as amended. In a registry whose default name is registered, \<open>resolve(None)\<close> returns
  the theme registered under that name. That is so in every registry that calls of
  \<open>register\<close> and \<open>enable\<close> lead to from the module-level one, whether the calls raise
  or not. \<open>resolve\<close> of a theme returns the theme. When \<open>enable(n)\<close> returns, the themes
  are unchanged and \<open>resolve(None)\<close> is the theme registered under \<open>n\<close>; and it returns
  whenever \<open>n\<close> is registered.
\<close>

theorem resolve_default:
  "(r_default reg \<in> fst ` set (r_themes reg) \<longrightarrow>
      (\<exists>t. map_of (r_themes reg) (r_default reg) = Some t \<and> resolve reg NoneArg = Inr t))
   \<and> (\<exists>t. resolve (foldl run_call themes calls) NoneArg = Inr t)
   \<and> resolve reg (ThemeArg th) = Inr th
   \<and> (\<forall>reg'. enable reg n = Inr reg' \<longrightarrow>
         r_themes reg' = r_themes reg
         \<and> (\<exists>t. map_of (r_themes reg) n = Some t \<and> resolve reg' NoneArg = Inr t))
   \<and> (n \<in> fst ` set (r_themes reg) \<longrightarrow> enable reg n = Inr (reg\<lparr>r_default := n\<rparr>))"
proof (intro conjI allI impI)
  assume "r_default reg \<in> fst ` set (r_themes reg)"
  then show "\<exists>t. map_of (r_themes reg) (r_default reg) = Some t \<and> resolve reg NoneArg = Inr t"
    by (rule resolve_None_registered)
next
  show "\<exists>t. resolve (foldl run_call themes calls) NoneArg = Inr t"
    using resolve_None_registered[OF reachable_default_registered] by blast
next
  show "resolve reg (ThemeArg th) = Inr th" by (simp add: resolve_def)
next
  fix reg' assume e: "enable reg n = Inr reg'"
  then show "r_themes reg' = r_themes reg" using enable_Inr by fastforce
next
  fix reg' assume e: "enable reg n = Inr reg'"
  from enable_Inr[OF e] have mem: "n \<in> fst ` set (r_themes reg)"
    and reg': "reg' = reg\<lparr>r_default := n\<rparr>" by simp_all
  from mem reg' have "r_default reg' \<in> fst ` set (r_themes reg')" by simp
  from resolve_None_registered[OF this] reg'
  show "\<exists>t. map_of (r_themes reg) n = Some t \<and> resolve reg' NoneArg = Inr t" by simp
next
  assume "n \<in> fst ` set (r_themes reg)"
  then show "enable reg n = Inr (reg\<lparr>r_default := n\<rparr>)"
    by (simp add: enable_def set_default_def)
qed

theorem resolve_default_witness:
  "r_default themes \<in> fst ` set (r_themes themes)
   \<and> resolve themes NoneArg = Inr DARK
   \<and> enable themes ''light'' = Inr (themes\<lparr>r_default := ''light''\<rparr>)
   \<and> resolve (themes\<lparr>r_default := ''light''\<rparr>) NoneArg = Inr LIGHT"
proof -
  have h1: "r_default themes \<in> fst ` set (r_themes themes)" by (simp add: themes_def)
  have h2: "''light'' \<in> fst ` set (r_themes themes)" by (simp add: themes_def)
  have m1: "map_of (r_themes themes) (r_default themes) = Some DARK" by (simp add: themes_def)
  have m2: "map_of (r_themes themes) ''light'' = Some LIGHT" by (simp add: themes_def)
  note main = resolve_default[of themes "[]" DARK "''light''"]
  from main h1 obtain t where
    "map_of (r_themes themes) (r_default themes) = Some t" "resolve themes NoneArg = Inr t"
    by blast
  with m1 have r1: "resolve themes NoneArg = Inr DARK" by simp
  from main h2 have e: "enable themes ''light'' = Inr (themes\<lparr>r_default := ''light''\<rparr>)"
    by blast
  with main obtain t' where
    "map_of (r_themes themes) ''light'' = Some t'"
    "resolve (themes\<lparr>r_default := ''light''\<rparr>) NoneArg = Inr t'"
    by blast
  with m2 have r2: "resolve (themes\<lparr>r_default := ''light''\<rparr>) NoneArg = Inr LIGHT" by simp
  from h1 r1 e r2 show ?thesis by blast
qed

text \<open>
  C4 as stated fails: a new registry in which only \<open>"custom"\<close> has been registered holds a
  theme, its default is still \<open>"dark"\<close>, and \<open>resolve(None)\<close> raises \<open>KeyError('dark')\<close>.
\<close>

theorem resolve_None_counterexample:
  "register ThemeRegistry_init ''custom'' (ThemeObj LIGHT)
     = Inr \<lparr>r_themes = [(''custom'', LIGHT)], r_default = ''dark''\<rparr>
   \<and> r_themes \<lparr>r_themes = [(''custom'', LIGHT)], r_default = ''dark''\<rparr> \<noteq> []
   \<and> resolve \<lparr>r_themes = [(''custom'', LIGHT)], r_default = ''dark''\<rparr> NoneArg
     = Inl (KeyError_key ''dark'')"
  by (simp add: register_def ThemeRegistry_init_def resolve_def)

subsection \<open>Building the options of a player\<close>

lemma keys_dict_update: "fst ` set (dict_update d other) = fst ` set d \<union> fst ` set other"
  unfolding dict_update_def
proof (induction other arbitrary: d)
  case Nil
  then show ?case by simp
next
  case (Cons kv other)
  obtain k v where kv: "kv = (k, v)" by (cases kv)
  have "fst ` set (fold (\<lambda>(k, v) acc. AList.update k v acc) (kv # other) d)
          = fst ` set (AList.update k v d) \<union> fst ` set other"
    using Cons.IH[of "AList.update k v d"] by (simp add: kv)
  also have "\<dots> = fst ` set d \<union> fst ` set (kv # other)"
    by (simp add: keys_update kv)
  finally show ?case .
qed

lemma keys_waveform_overrides: "fst ` set (waveform_overrides th) \<subseteq> set waveform_fields"
  by (auto simp: waveform_overrides_def)

lemma init_known_keys:
  "WaveSurferOptions_init (filter (\<lambda>(k, v). k \<in> set field_names) kw)
     = Inr (init_fields (filter (\<lambda>(k, v). k \<in> set field_names) kw))"
proof -
  have "filter (\<lambda>(k, v). k \<notin> set field_names) (filter (\<lambda>(k, v). k \<in> set field_names) kw) = []"
    by (induction kw) auto
  then show ?thesis by (simp add: WaveSurferOptions_init_def)
qed

lemma from_kwargs_eq:
  "from_kwargs kw =
     (if ''cls'' \<in> fst ` set kw
      then Inl (TypeError_multiple_values ''WaveSurferOptions.from_kwargs'' ''cls'')
      else Inr (init_fields (filter (\<lambda>(k, v). k \<in> set field_names) kw)))"
  by (simp add: from_kwargs_def Let_def init_known_keys)

lemma from_kwargs_drops_unknown:
  "from_kwargs [(''bar_width'', PyInt 5), (''colour'', PyStr ''red'')] = Inr example_options"
  by (simp add: from_kwargs_eq example_options_def field_names_def)

lemma build_options_eq:
  "build_options self =
     (if ''cls'' \<in> fst ` set (extra_options self)
      then Inl (TypeError_multiple_values ''WaveSurferOptions.from_kwargs'' ''cls'')
      else Inr (init_fields (filter (\<lambda>(k, v). k \<in> set field_names)
                  (dict_update (waveform_overrides (theme self)) (extra_options self)))))"
proof -
  have "''cls'' \<notin> set waveform_fields" by (simp add: waveform_fields_def)
  then have "''cls'' \<notin> fst ` set (waveform_overrides (theme self))"
    using keys_waveform_overrides by blast
  then show ?thesis
    by (simp add: build_options_def Let_def from_kwargs_eq keys_dict_update)
qed

lemma build_options_returns:
  "''cls'' \<notin> fst ` set (extra_options self) \<Longrightarrow> \<exists>opts. build_options self = Inr opts"
  by (simp add: build_options_eq)

subsection \<open>Rendering one player\<close>

lemma bind_estimate_to_html:
  "bind_keywords ''estimate_player_height'' estimate_player_height_params
     [''title'', ''theme'', ''controls'', ''options'', ''plugins'']
   = Inl (TypeError_unexpected_keyword ''estimate_player_height'' ''options'')"
  by (simp add: bind_keywords_def estimate_player_height_params_def)

lemma bind_estimate_compare:
  "bind_keywords ''estimate_player_height'' estimate_player_height_params
     [''title'', ''theme'', ''controls''] = Inr ()"
  by (simp add: bind_keywords_def estimate_player_height_params_def)

lemma bind_wrap_compare:
  "bind_keywords ''wrap_in_iframe'' wrap_in_iframe_params [''body_html'', ''height''] = Inr ()"
  by (simp add: bind_keywords_def wrap_in_iframe_params_def)

lemma bind_wrap_to_html:
  "bind_keywords ''wrap_in_iframe'' wrap_in_iframe_params
     [''body_html'', ''height'', ''plugin_names'']
   = Inl (TypeError_unexpected_keyword ''wrap_in_iframe'' ''plugin_names'')"
  by (simp add: bind_keywords_def wrap_in_iframe_params_def)

lemma to_html_raises:
  "to_html ext n self =
     (case resolve_audio ext (audio self) (sr self) of
        Inl e \<Rightarrow> Inl e
      | Inr u \<Rightarrow>
          (case build_options self of
             Inl e \<Rightarrow> Inl e
           | Inr opts \<Rightarrow>
               Inl (TypeError_unexpected_keyword ''estimate_player_height'' ''options'')))"
  unfolding to_html_def bind_estimate_to_html
  by (simp add: Let_def split: sum.splits prod.splits)

lemma to_html_never_returns: "to_html ext n self \<noteq> Inr html"
  unfolding to_html_raises by (simp split: sum.splits)

text \<open>
  C1. \<open>to_html\<close> passes \<open>options\<close> and \<open>plugins\<close> to \<open>estimate_player_height\<close>, which has
  no such parameters, so the call raises \<open>TypeError\<close> whenever it is reached
  (\<open>to_html_raises\<close>) and \<open>to_html\<close> returns for no player (\<open>to_html_never_returns\<close>).
  Here it is run on a player whose audio is an HTTPS URL, which resolves, and whose
  options build.
\<close>

theorem to_html_url_player:
  "resolve_audio silent_externals (audio url_player) (sr url_player)
     = Inr (''https://example.com/a.wav'', None)
   \<and> to_html silent_externals 0 url_player
     = Inl (TypeError_unexpected_keyword ''estimate_player_height'' ''options'')
   \<and> repr_html silent_externals 0 url_player
     = Inl (TypeError_unexpected_keyword ''estimate_player_height'' ''options'')"
proof -
  have r: "resolve_audio silent_externals (audio url_player) (sr url_player)
     = Inr (''https://example.com/a.wav'', None)"
    by (simp add: url_player_def resolve_audio_def startswith_def)
  have "''cls'' \<notin> fst ` set (extra_options url_player)"
    by (simp add: url_player_def)
  then obtain opts where "build_options url_player = Inr opts"
    using build_options_returns by blast
  with r show ?thesis by (simp add: repr_html_def to_html_raises)
qed

subsection \<open>Serialisation\<close>

lemma render_function_item:
  "(''render_function'', render_function self) \<in> set (fields_items self)"
  by (simp add: fields_items_def)

lemma camel_key_render_function: "camel_key ''render_function'' = ''renderFunction''"
  by code_simp

lemma map_of_renderFunction:
  "map_of (to_js_dict self) ''renderFunction''
     = (if render_function self = PyNone then None else Some (render_function self))"
  using map_of_to_js_dict[OF render_function_item, of self]
  by (simp only: camel_key_render_function)

lemma popped_render_fn:
  "dict_get (to_js_dict self) ''renderFunction'' PyNone = render_function self"
  by (simp add: dict_get_def map_of_renderFunction)

lemma delete_filter: "AList.delete k al = filter (\<lambda>kv. fst kv \<noteq> k) al"
  by (induction al) auto

lemma delete_absent:
  "render_function self = PyNone \<Longrightarrow>
   AList.delete ''renderFunction'' (to_js_dict self) = to_js_dict self"
proof -
  assume "render_function self = PyNone"
  then have "map_of (to_js_dict self) ''renderFunction'' = None"
    by (simp add: map_of_renderFunction)
  then have "''renderFunction'' \<notin> fst ` set (to_js_dict self)"
    by (simp add: map_of_eq_None_iff)
  then have "\<forall>kv \<in> set (to_js_dict self). fst kv \<noteq> ''renderFunction''"
    by (metis imageI)
  then show ?thesis
    unfolding delete_filter by (simp only: filter_True)
qed

lemma json_dumps_dict: "json_dumps (PyDict d) = dict_body d @ ''}''"
  by (simp add: dict_body_def)

lemma insert_before_last_end:
  "insert_before_last c ins (front @ [c]) = front @ ins @ [c]"
  by (simp add: insert_before_last_def)

lemma to_json_eq:
  \<open>to_json self =
     (if render_function self = PyNone then json_dumps (PyDict (to_js_dict self))
      else dict_body (filter (\<lambda>kv. fst kv \<noteq> ''renderFunction'') (to_js_dict self))
             @ '', "renderFunction": '' @ py_str (render_function self) @ ''}'')\<close>
proof (cases "render_function self = PyNone")
  case True
  then show ?thesis
    by (simp add: to_json_def popped_render_fn delete_absent del: json_dumps.simps)
next
  case False
  have "butlast (json_dumps (PyDict (AList.delete ''renderFunction'' (to_js_dict self))))
          = dict_body (filter (\<lambda>kv. fst kv \<noteq> ''renderFunction'') (to_js_dict self))"
    unfolding json_dumps_dict delete_filter by (simp add: butlast_append)
  then show ?thesis using False
    by (simp add: to_json_def popped_render_fn Let_def del: json_dumps.simps)
qed

text \<open>
  C3. \<open>to_json\<close> is the serialisation the specification describes (\<open>serialize_spec\<close>).
  When \<open>render_function\<close> is \<open>None\<close> it is the JSON text of the wire record. Otherwise the
  JSON text of the wire record without the \<open>renderFunction\<close> entry ends in a closing
  brace, and \<open>to_json\<close> is that text with the key and the code, as the f-string prints it
  and without quotes, put in front of that brace.
\<close>

theorem to_json_serialize:
  \<open>to_json self = serialize_spec self
   \<and> (render_function self = PyNone \<longrightarrow> to_json self = json_dumps (PyDict (to_js_dict self)))
   \<and> (render_function self \<noteq> PyNone \<longrightarrow>
        (\<exists>front. json_dumps (PyDict (filter (\<lambda>kv. fst kv \<noteq> ''renderFunction'') (to_js_dict self)))
                   = front @ ''}''
               \<and> to_json self
                   = front @ '', "renderFunction": '' @ py_str (render_function self) @ ''}''))\<close>
proof (intro conjI impI)
  show "to_json self = serialize_spec self"
    unfolding to_json_eq serialize_spec_def Let_def json_dumps_dict
    using insert_before_last_end[of "CHR ''}''"] by simp
next
  assume "render_function self = PyNone"
  then show "to_json self = json_dumps (PyDict (to_js_dict self))"
    by (simp add: to_json_eq del: json_dumps.simps)
next
  assume "render_function self \<noteq> PyNone"
  then show \<open>\<exists>front. json_dumps (PyDict (filter (\<lambda>kv. fst kv \<noteq> ''renderFunction'') (to_js_dict self)))
                   = front @ ''}''
               \<and> to_json self
                   = front @ '', "renderFunction": '' @ py_str (render_function self) @ ''}''\<close>
    unfolding to_json_eq json_dumps_dict by simp
qed

theorem to_json_serialize_witness:
  \<open>render_function code_options \<noteq> PyNone
   \<and> to_json code_options
       = ''{"barWidth": 3, "renderFunction": function(peaks, ctx) { ctx.fillRect(0,0,100,100); }}''
   \<and> render_function example_options = PyNone
   \<and> to_json example_options = ''{"barWidth": 5}''\<close>
proof -
  have h1: "render_function code_options \<noteq> PyNone" by code_simp
  have h2: "render_function example_options = PyNone" by code_simp
  have v1: \<open>serialize_spec code_options
       = ''{"barWidth": 3, "renderFunction": function(peaks, ctx) { ctx.fillRect(0,0,100,100); }}''\<close>
    by code_simp
  have v2: \<open>json_dumps (PyDict (to_js_dict example_options)) = ''{"barWidth": 5}''\<close>
    by code_simp
  from to_json_serialize[of code_options]
  have "to_json code_options = serialize_spec code_options"
    by blast
  with v1 have r1: \<open>to_json code_options
       = ''{"barWidth": 3, "renderFunction": function(peaks, ctx) { ctx.fillRect(0,0,100,100); }}''\<close>
    by simp
  from to_json_serialize[of example_options]
  have "render_function example_options = PyNone
          \<longrightarrow> to_json example_options = json_dumps (PyDict (to_js_dict example_options))"
    by blast
  with h2 v2 have r2: \<open>to_json example_options = ''{"barWidth": 5}''\<close>
    by simp
  from h1 r1 h2 r2 show ?thesis by blast
qed

lemma only_render_function_dict:
  assumes "\<forall>(n, v) \<in> set (fields_items self). n \<noteq> ''render_function'' \<longrightarrow> v = PyNone"
    and "render_function self \<noteq> PyNone"
  shows "to_js_dict self = [(''renderFunction'', render_function self)]"
proof -
  from assms(1)
  have "filter (\<lambda>kv. snd kv \<noteq> PyNone) (fields_items self)
          = [(''render_function'', render_function self)]"
    using assms(2) by (simp add: fields_items_def)
  then show ?thesis
    unfolding to_js_dict_eq by (simp add: camel_key_render_function)
qed

lemma join_Cons_starts: "\<exists>rest. join sep (x # xs) = x @ rest"
  by (cases xs) auto

lemma json_dumps_dict_second:
  "take 2 (json_dumps (PyDict d)) = ''{}'' \<or> take 2 (json_dumps (PyDict d)) = [CHR ''{'', CHR 0x22]"
proof (cases d)
  case Nil
  then show ?thesis by simp
next
  case (Cons kv rest)
  obtain tl_text where
    "join '', '' (map (\<lambda>kv. json_string (fst kv) @ '': '' @ json_dumps (snd kv)) (kv # rest))
       = (json_string (fst kv) @ '': '' @ json_dumps (snd kv)) @ tl_text"
    using join_Cons_starts[of "'', ''" "json_string (fst kv) @ '': '' @ json_dumps (snd kv)"
        "map (\<lambda>kv. json_string (fst kv) @ '': '' @ json_dumps (snd kv)) rest"]
    by auto
  then show ?thesis using Cons by (simp add: json_string_def)
qed

lemma not_a_dict_text:
  "take 2 s = ''{,'' \<Longrightarrow> s \<noteq> json_dumps (PyDict d)"
  using json_dumps_dict_second[of d] by auto

text \<open>
  C9. When \<open>render_function\<close> is the only field that is not \<open>None\<close>, \<open>to_json\<close> returns
  an opening brace, a comma, the key, the code and a closing brace: its first two
  characters are \<open>{,\<close>. No JSON text and no JavaScript object literal has a comma right
  after the opening brace; in particular the text is not what \<open>json.dumps\<close> gives for any
  dictionary.
\<close>

theorem to_json_only_render_function:
  \<open>render_function self \<noteq> PyNone \<Longrightarrow>
   \<forall>(n, v) \<in> set (fields_items self). n \<noteq> ''render_function'' \<longrightarrow> v = PyNone \<Longrightarrow>
   to_json self = ''{, "renderFunction": '' @ py_str (render_function self) @ ''}''
   \<and> take 2 (to_json self) = ''{,''
   \<and> (\<forall>d. to_json self \<noteq> json_dumps (PyDict d))\<close>
proof -
  assume rf: "render_function self \<noteq> PyNone"
    and rest: "\<forall>(n, v) \<in> set (fields_items self). n \<noteq> ''render_function'' \<longrightarrow> v = PyNone"
  have d: "to_js_dict self = [(''renderFunction'', render_function self)]"
    using rest rf by (rule only_render_function_dict)
  have whole: \<open>to_json self = ''{, "renderFunction": '' @ py_str (render_function self) @ ''}''\<close>
    unfolding to_json_eq d using rf by (simp add: dict_body_def)
  then have start: "take 2 (to_json self) = ''{,''" by simp
  then have "\<forall>d. to_json self \<noteq> json_dumps (PyDict d)"
    using not_a_dict_text by blast
  with whole start show ?thesis by blast
qed

theorem to_json_only_render_function_witness:
  \<open>render_function only_code_options \<noteq> PyNone
   \<and> filter (\<lambda>kv. snd kv \<noteq> PyNone) (fields_items only_code_options)
       = [(''render_function'', PyStr ''function() {}'')]
   \<and> to_json only_code_options = ''{, "renderFunction": function() {}}''\<close>
proof -
  have h1: "render_function only_code_options \<noteq> PyNone" by code_simp
  have h2: "\<forall>(n, v) \<in> set (fields_items only_code_options). n \<noteq> ''render_function'' \<longrightarrow> v = PyNone"
    by code_simp
  have v: "py_str (render_function only_code_options) = ''function() {}''" by code_simp
  have h3: "filter (\<lambda>kv. snd kv \<noteq> PyNone) (fields_items only_code_options)
              = [(''render_function'', PyStr ''function() {}'')]"
    by code_simp
  from to_json_only_render_function[OF h1 h2]
  have \<open>to_json only_code_options
          = ''{, "renderFunction": '' @ py_str (render_function only_code_options) @ ''}''\<close>
    by blast
  with v have \<open>to_json only_code_options = ''{, "renderFunction": function() {}}''\<close> by simp
  with h1 h3 show ?thesis by blast
qed

subsection \<open>The raw-code entry of the wire record\<close>

text \<open>
  C2, as amended. When \<open>render_function\<close> is not \<open>None\<close>, the dictionary \<open>to_js_dict\<close>
  returns binds \<open>renderFunction\<close> to it. \<open>to_json\<close> encodes that dictionary with the entry
  deleted, and puts the key and the unquoted code in place of the last character of the
  text.
\<close>

theorem to_js_dict_keeps_render_function:
  \<open>render_function self \<noteq> PyNone \<Longrightarrow>
   map_of (to_js_dict self) ''renderFunction'' = Some (render_function self)
   \<and> ''renderFunction'' \<notin> fst ` set (AList.delete ''renderFunction'' (to_js_dict self))
   \<and> to_json self
       = butlast (json_dumps (PyDict (AList.delete ''renderFunction'' (to_js_dict self))))
         @ '', "renderFunction": '' @ py_str (render_function self) @ ''}''\<close>
proof (intro conjI)
  assume rf: "render_function self \<noteq> PyNone"
  then show "map_of (to_js_dict self) ''renderFunction'' = Some (render_function self)"
    by (simp add: map_of_renderFunction)
  show "''renderFunction'' \<notin> fst ` set (AList.delete ''renderFunction'' (to_js_dict self))"
    unfolding delete_filter by force
  show \<open>to_json self
       = butlast (json_dumps (PyDict (AList.delete ''renderFunction'' (to_js_dict self))))
         @ '', "renderFunction": '' @ py_str (render_function self) @ ''}''\<close>
    using rf by (simp add: to_json_def popped_render_fn Let_def del: json_dumps.simps)
qed

theorem to_js_dict_keeps_render_function_witness:
  \<open>render_function code_options \<noteq> PyNone
   \<and> map_of (to_js_dict code_options) ''renderFunction''
       = Some (PyStr ''function(peaks, ctx) { ctx.fillRect(0,0,100,100); }'')\<close>
proof -
  have h: "render_function code_options \<noteq> PyNone" by code_simp
  have v: "render_function code_options
             = PyStr ''function(peaks, ctx) { ctx.fillRect(0,0,100,100); }''" by code_simp
  from to_js_dict_keeps_render_function[OF h] v h show ?thesis by simp
qed

lemma build_wavesurfer_js_quotes_code:
  \<open>build_wavesurfer_js ''0123456789ab'' ''a.wav'' only_code_options None None []
     = ''(function() {\<newline>  var ws = WaveSurfer.create({"renderFunction": "function() {}", ''
       @ ''"container": "#waveform-0123456789ab", "url": "a.wav", "hideScrollbar": true, ''
       @ ''"cursorWidth": 2});\<newline>})();''\<close>
  by code_simp

text \<open>
  C2 as stated fails: for the option set whose only field is
  \<open>render_function = "function() {}"\<close>, \<open>to_js_dict\<close> returns a dictionary with the key
  \<open>renderFunction\<close>.
\<close>

theorem to_js_dict_render_function_counterexample:
  \<open>render_function only_code_options \<noteq> PyNone
   \<and> to_js_dict only_code_options = [(''renderFunction'', PyStr ''function() {}'')]
   \<and> ''renderFunction'' \<in> fst ` set (to_js_dict only_code_options)\<close>
  by code_simp

subsection \<open>Escaping in the rendered markup\<close>

lemma sublist_has_pair: "sublist (c # d # rest) ys \<Longrightarrow> has_pair c d ys"
proof (induction ys rule: has_pair.induct[of _ c d])
  case (1 x y ys)
  then show ?case by (auto simp: sublist_Cons_right)
next
  case (2 x)
  then show ?case by (auto simp: sublist_Cons_right)
next
  case 3
  then show ?case by simp
qed

lemma has_pair_absent: "c \<notin> set ys \<Longrightarrow> \<not> has_pair c d ys"
  by (induction ys rule: has_pair.induct[of _ c d]) auto

lemma has_pair_append:
  "has_pair c d (xs @ ys) \<longleftrightarrow>
     has_pair c d xs \<or> has_pair c d ys \<or> (xs \<noteq> [] \<and> last xs = c \<and> ys \<noteq> [] \<and> hd ys = d)"
proof (induction xs rule: has_pair.induct[of _ c d])
  case (1 x y xs)
  then show ?case by auto
next
  case (2 x)
  then show ?case by (cases ys) auto
next
  case 3
  then show ?case by simp
qed

lemma has_pair_append_absent:
  "c \<notin> set xs \<Longrightarrow> has_pair c d (xs @ ys) = has_pair c d ys"
  by (auto simp: has_pair_append has_pair_absent)

lemma set_replace: "x \<in> set (replace c r s) \<Longrightarrow> x \<in> set r \<or> (x \<in> set s \<and> x \<noteq> c)"
  by (auto simp: replace_def split: if_splits)

lemma html_escape_no_lt: "CHR ''<'' \<notin> set (html_escape s)"
proof
  assume "CHR ''<'' \<in> set (html_escape s)"
  then have "CHR ''<'' \<in> set (replace (CHR 0x22) ''&quot;''
         (replace CHR ''>'' ''&gt;'' (replace CHR ''<'' ''&lt;'' (replace CHR ''&'' ''&amp;'' s))))"
    unfolding html_escape_def by (auto dest: set_replace)
  then have "CHR ''<'' \<in> set (replace CHR ''>'' ''&gt;''
         (replace CHR ''<'' ''&lt;'' (replace CHR ''&'' ''&amp;'' s)))"
    by (auto dest: set_replace)
  then have "CHR ''<'' \<in> set (replace CHR ''<'' ''&lt;'' (replace CHR ''&'' ''&amp;'' s))"
    by (auto dest: set_replace)
  then show False by (auto dest: set_replace)
qed

lemma digit_char_not_lt: "d < 10 \<Longrightarrow> digit_char d \<noteq> CHR ''<''"
proof
  assume d: "d < 10" and eq: "digit_char d = CHR ''<''"
  from eq have "of_char (digit_char d) = (of_char CHR ''<'' :: nat)" by simp
  then have "(48 + d) mod 256 = 60" by (simp add: digit_char_def)
  with d show False by simp
qed

lemma str_nat_no_lt: "CHR ''<'' \<notin> set (str_nat n)"
proof (induction n rule: str_nat.induct)
  case (1 n)
  show ?case
  proof (cases "n < 10")
    case True
    then show ?thesis by (subst str_nat.simps) (simp add: digit_char_not_lt[symmetric])
  next
    case False
    have "n mod 10 < 10" by simp
    then have "digit_char (n mod 10) \<noteq> CHR ''<''" by (rule digit_char_not_lt)
    with False 1 show ?thesis by (subst str_nat.simps) auto
  qed
qed

lemma str_int_no_lt: "CHR ''<'' \<notin> set (str_int i)"
  by (simp add: str_int_def str_nat_no_lt)

lemma wrap_in_iframe_no_lt_s:
  "\<not> has_pair CHR ''<'' CHR ''s'' (wrap_in_iframe wavesurfer_js body_html iframe_height)"
proof -
  define head_part :: string where \<open>head_part = ''<iframe srcdoc="''\<close>
  define mid_part where
    \<open>mid_part = html_escape (''<!DOCTYPE html><html><head><style>body { margin: 0; background: ''
              @ ''transparent; }</style><script>'' @ wavesurfer_js @ ''</script></head><body>''
              @ body_html @ ''</body></html>'')
            @ ''" style="width: 100%; height: '' @ str_int iframe_height\<close>
  define tail_part :: string where
    \<open>tail_part = ''px; border: none; overflow: hidden;" allow="autoplay"></iframe>''\<close>
  have w: "wrap_in_iframe wavesurfer_js body_html iframe_height = head_part @ (mid_part @ tail_part)"
    by (simp add: wrap_in_iframe_def head_part_def mid_part_def tail_part_def)
  have mid: "CHR ''<'' \<notin> set mid_part"
    unfolding mid_part_def using html_escape_no_lt str_int_no_lt by simp
  have f1: "\<not> has_pair CHR ''<'' CHR ''s'' head_part" and f2: "last head_part \<noteq> CHR ''<''"
    by (simp_all add: head_part_def)
  have b: "\<not> has_pair CHR ''<'' CHR ''s'' tail_part"
    by (simp add: tail_part_def)
  have "has_pair CHR ''<'' CHR ''s'' (head_part @ (mid_part @ tail_part))
          = has_pair CHR ''<'' CHR ''s'' (mid_part @ tail_part)"
    using f1 f2 by (simp only: has_pair_append) blast
  also have "\<dots> = has_pair CHR ''<'' CHR ''s'' tail_part"
    using mid by (rule has_pair_append_absent)
  finally show ?thesis using b w by simp
qed

lemma wrap_in_iframe_no_script:
  "\<not> sublist ''<script>alert'' (wrap_in_iframe wavesurfer_js body_html iframe_height)"
  using sublist_has_pair[of "CHR ''<''" "CHR ''s''" "''cript>alert''"] wrap_in_iframe_no_lt_s
  by auto

lemma compare_loop_step:
  "resolve_audio ext (audio p) (sr p) = Inr (src_url, r) \<Longrightarrow> build_options p = Inr opts \<Longrightarrow>
   compare_loop ext n (p # ps) cards m
     = compare_loop ext (Suc n) ps
         (cards @ [build_player_html (take 12 (uuid4_hex ext n)) src_url (title p) opts (theme p)
                     (controls p) (or_None (events p)) (or_None (plugins p))])
         (max (estimate_player_height (title p) (theme p) (controls p)) m)"
  by (simp add: bind_estimate_compare Let_def max_def)

lemma compare_loop_append:
  "compare_loop ext n (ps @ qs) cards m =
     (case compare_loop ext n ps cards m of
        Inl e \<Rightarrow> Inl e
      | Inr (cards', m') \<Rightarrow> compare_loop ext (n + length ps) qs cards' m')"
  by (induction ps arbitrary: n cards m)
     (simp_all add: Let_def bind_estimate_compare split: sum.splits prod.splits)

lemma compare_loop_cards:
  "\<forall>p \<in> set ps. (\<exists>u. resolve_audio ext (audio p) (sr p) = Inr u)
                   \<and> (\<exists>opts. build_options p = Inr opts) \<Longrightarrow>
   \<exists>new. length new = length ps
      \<and> (\<forall>cards m. compare_loop ext n ps cards m
            = Inr (cards @ new,
                   fold max (map (\<lambda>p. estimate_player_height (title p) (theme p) (controls p)) ps)
                     m))"
proof (induction ps arbitrary: n)
  case Nil
  then show ?case by simp
next
  case (Cons p ps)
  from Cons.prems obtain src_url r opts
    where res: "resolve_audio ext (audio p) (sr p) = Inr (src_url, r)"
      and bo: "build_options p = Inr opts"
    by fastforce
  define card where
    "card = build_player_html (take 12 (uuid4_hex ext n)) src_url (title p) opts
              (theme p) (controls p) (or_None (events p)) (or_None (plugins p))"
  define h where "h = estimate_player_height (title p) (theme p) (controls p)"
  have step: "compare_loop ext n (p # ps) cards m
                = compare_loop ext (Suc n) ps (cards @ [card]) (max h m)" for cards m
    unfolding card_def h_def using res bo by (rule compare_loop_step)
  from Cons.prems
  have "\<forall>q \<in> set ps. (\<exists>u. resolve_audio ext (audio q) (sr q) = Inr u)
                       \<and> (\<exists>opts. build_options q = Inr opts)"
    by simp
  from Cons.IH[OF this, of "Suc n"]
  obtain new where len: "length new = length ps"
    and rest: "\<And>cards m. compare_loop ext (Suc n) ps cards m
       = Inr (cards @ new,
              fold max (map (\<lambda>p. estimate_player_height (title p) (theme p) (controls p)) ps) m)"
    by blast
  have "length (card # new) = length (p # ps)" using len by simp
  moreover have "\<forall>cards m. compare_loop ext n (p # ps) cards m
      = Inr (cards @ (card # new),
             fold max (map (\<lambda>p. estimate_player_height (title p) (theme p) (controls p)) (p # ps))
               m)"
    unfolding step rest by (simp add: h_def)
  ultimately show ?case by blast
qed

lemma compare_of_loop:
  \<open>compare_loop ext n ps [] 0 = Inr (cs, m) \<Longrightarrow>
   compare ext n ps columns
     = Inr (wrap_in_iframe (WAVESURFER_JS ext)
              (''<div style="''
                 @ (if columns > 1
                    then ''display: grid; grid-template-columns: repeat('' @ str_int columns
                           @ '', 1fr); gap: 8px;''
                    else ''display: grid; gap: 8px;'')
                 @ ''">'' @ concat cs @ ''</div>'')
              (if columns > 1 then - ((- int (length cs)) div columns) * m + 8
               else int (length cs) * m))\<close>
  by (simp add: compare_def bind_wrap_compare Let_def)

lemma compare_returns:
  "\<forall>p \<in> set players. (\<exists>u. resolve_audio ext (audio p) (sr p) = Inr u)
                        \<and> (\<exists>opts. build_options p = Inr opts) \<Longrightarrow>
   \<exists>html. compare ext n players columns = Inr html"
proof -
  assume "\<forall>p \<in> set players. (\<exists>u. resolve_audio ext (audio p) (sr p) = Inr u)
                               \<and> (\<exists>opts. build_options p = Inr opts)"
  from compare_loop_cards[OF this, of n]
  obtain new where "compare_loop ext n players [] 0
      = Inr ([] @ new,
             fold max (map (\<lambda>p. estimate_player_height (title p) (theme p) (controls p)) players)
               0)"
    by blast
  then have "compare_loop ext n players [] 0
      = Inr (new,
             fold max (map (\<lambda>p. estimate_player_height (title p) (theme p) (controls p)) players)
               0)"
    by (simp only: append_Nil)
  from compare_of_loop[OF this] show ?thesis by blast
qed

lemma build_title_html_escapes:
  \<open>\<exists>front. \<forall>t. build_title_html t th = front @ html_escape t @ ''</div>''\<close>
proof -
  define front where
    \<open>front = ''<div style="font-size: '' @ title_font_size th @ ''; font-weight: ''
           @ title_font_weight th @ ''; color: '' @ title_color th
           @ ''; margin-bottom: 14px; display: flex; align-items: center; gap: 10px; ''
           @ ''font-family: '' @ font_family th @ '';">''
           @ (if truthy (title_marker_color th) \<and> truthy (title_marker_shape th) then
                ''<span style="width: 8px; height: 9px; flex-shrink: 0; background: ''
                  @ str_of (title_marker_color th) @ ''; clip-path: ''
                  @ str_of (title_marker_shape th) @ '';"></span>''
              else [])\<close>
  have \<open>build_title_html t th = front @ html_escape t @ ''</div>''\<close> for t
    by (simp add: build_title_html_def front_def Let_def)
  then show ?thesis by blast
qed

lemma build_player_html_title:
  "\<exists>pre post. \<forall>t. t \<noteq> [] \<longrightarrow>
     build_player_html uid src_url (Some t) opts th c ev pl = pre @ html_escape t @ post"
proof -
  obtain front where front: \<open>\<And>t. build_title_html t th = front @ html_escape t @ ''</div>''\<close>
    using build_title_html_escapes by blast
  define head_part where
    \<open>head_part = ''<div id="player-'' @ uid @ ''" style="background: '' @ background th
           @ ''; border-radius: '' @ border_radius th @ ''; padding: '' @ padding th
           @ ''; border: '' @ border th @ ''; font-family: '' @ font_family th
           @ ''; margin-bottom: '' @ card_margin_bottom th
           @ ''; position: relative; overflow: hidden;">''
           @ (if truthy (top_accent th) then
                ''<div style="position: absolute; top: 0; left: 0; right: 0; height: 2px; ''
                  @ ''background: '' @ str_of (top_accent th) @ ''; z-index: 1;"></div>''
              else [])
           @ (if truthy (background_pattern th) then
                ''<div style="position: absolute; inset: 0; background-image: ''
                  @ str_of (background_pattern th)
                  @ ''; pointer-events: none; z-index: 0;"></div>''
              else [])
           @ ''<div style="position: relative; z-index: 1;">''\<close>
  define tail_part where
    \<open>tail_part = ''<div id="waveform-'' @ uid
           @ ''" style="border-radius: 8px; overflow: hidden;"></div>''
           @ build_controls_html uid c th @ ''</div></div>''
           @ ''\<newline><script>\<newline>''
           @ build_wavesurfer_js uid src_url opts ev pl (build_controls_js uid c ''ws'')
           @ ''\<newline></script>''\<close>
  have "build_player_html uid src_url (Some t) opts th c ev pl
          = head_part @ build_title_html t th @ tail_part" if "t \<noteq> []" for t
    using that
    by (simp add: build_player_html_def build_container_html_def head_part_def tail_part_def
        Let_def)
  then have \<open>\<forall>t. t \<noteq> [] \<longrightarrow> build_player_html uid src_url (Some t) opts th c ev pl
          = (head_part @ front) @ html_escape t @ (''</div>'' @ tail_part)\<close>
    by (simp add: front)
  then show ?thesis by blast
qed

lemma estimate_player_height_title:
  "t \<noteq> [] \<Longrightarrow>
   estimate_player_height (Some t) th c = 42 + estimate_player_height None th c"
  by (simp add: estimate_player_height_def truthy_def Let_def)

lemma xss_title_escaped:
  \<open>html_escape ''<script>alert("xss")</script>''
     = ''&lt;script&gt;alert(&quot;xss&quot;)&lt;/script&gt;''\<close>
  by (simp add: html_escape_def replace_def)

text \<open>
  C6. Take any list of players that \<open>compare\<close> renders, and give one of them a title \<open>t\<close>
  that is not empty. The page that goes into the iframe is then a text \<open>pre\<close>, the title
  as \<open>html.escape\<close> returns it, and a text \<open>post\<close>, where \<open>pre\<close> and \<open>post\<close> do not depend
  on the title: the title reaches the page only through \<open>html.escape\<close>, whose result has
  no \<open><\<close>. For the title \<open><script>alert("xss")</script>\<close> that result is
  \<open>&lt;script&gt;alert(&quot;xss&quot;)&lt;/script&gt;\<close> (\<open>xss_title_escaped\<close>). The
  markup returned, in which the whole page is escaped once more for the \<open>srcdoc\<close>
  attribute, does not contain \<open><script>alert\<close>. \<open>compare\<close> is the render path that
  returns markup; \<open>to_html\<close> returns none (\<open>to_html_never_returns\<close>).
\<close>

theorem compare_escapes_title:
  assumes "\<forall>q \<in> set (before @ p # after).
             (\<exists>u. resolve_audio ext (audio q) (sr q) = Inr u)
             \<and> (\<exists>opts. build_options q = Inr opts)"
  shows "\<exists>pre post total. \<forall>t. t \<noteq> [] \<longrightarrow>
           compare ext n (before @ p\<lparr>title := Some t\<rparr> # after) columns
             = Inr (wrap_in_iframe (WAVESURFER_JS ext) (pre @ html_escape t @ post) total)
           \<and> CHR ''<'' \<notin> set (html_escape t)
           \<and> \<not> sublist ''<script>alert''
                 (wrap_in_iframe (WAVESURFER_JS ext) (pre @ html_escape t @ post) total)"
proof -
  let ?est = "\<lambda>p. estimate_player_height (title p) (theme p) (controls p)"
  from assms
  have okb: "\<forall>q \<in> set before. (\<exists>u. resolve_audio ext (audio q) (sr q) = Inr u)
                                \<and> (\<exists>opts. build_options q = Inr opts)"
    and oka: "\<forall>q \<in> set after. (\<exists>u. resolve_audio ext (audio q) (sr q) = Inr u)
                               \<and> (\<exists>opts. build_options q = Inr opts)"
    by simp_all
  from assms obtain src_url r opts
    where res: "resolve_audio ext (audio p) (sr p) = Inr (src_url, r)"
      and bo: "build_options p = Inr opts"
    by fastforce
  from compare_loop_cards[OF okb, of n]
  obtain cb where cb: "\<And>cards m. compare_loop ext n before cards m
      = Inr (cards @ cb, fold max (map ?est before) m)"
    by blast
  from compare_loop_cards[OF oka, of "Suc (n + length before)"]
  obtain ca where ca: "\<And>cards m. compare_loop ext (Suc (n + length before)) after cards m
      = Inr (cards @ ca, fold max (map ?est after) m)"
    by blast
  define uid where "uid = take 12 (uuid4_hex ext (n + length before))"
  obtain pre0 post0 where card: "\<And>t. t \<noteq> [] \<Longrightarrow>
      build_player_html uid src_url (Some t) opts (theme p) (controls p)
        (or_None (events p)) (or_None (plugins p)) = pre0 @ html_escape t @ post0"
    using build_player_html_title by blast
  define h1 where "h1 = 42 + estimate_player_height None (theme p) (controls p)"
  define mfin where "mfin = fold max (map ?est after) (max h1 (fold max (map ?est before) 0))"
  define count where "count = int (length cb + 1 + length ca)"
  define grid_style where
    \<open>grid_style = (if columns > 1
                    then ''display: grid; grid-template-columns: repeat('' @ str_int columns
                           @ '', 1fr); gap: 8px;''
                    else ''display: grid; gap: 8px;'')\<close>
  define total where
    "total = (if columns > 1 then - ((- count) div columns) * mfin + 8 else count * mfin)"
  define pre where \<open>pre = ''<div style="'' @ grid_style @ ''">'' @ concat cb @ pre0\<close>
  define post where \<open>post = post0 @ concat ca @ ''</div>''\<close>
  have main: "compare ext n (before @ p\<lparr>title := Some t\<rparr> # after) columns
       = Inr (wrap_in_iframe (WAVESURFER_JS ext) (pre @ html_escape t @ post) total)"
    if t: "t \<noteq> []" for t
  proof -
    let ?p = "p\<lparr>title := Some t\<rparr>"
    have res': "resolve_audio ext (audio ?p) (sr ?p) = Inr (src_url, r)"
      using res by simp
    have bo': "build_options ?p = Inr opts"
      using bo by (simp add: build_options_def)
    have h: "?est ?p = h1"
      using t by (simp add: h1_def estimate_player_height_title)
    have c: "build_player_html uid src_url (title ?p) opts (theme ?p) (controls ?p)
               (or_None (events ?p)) (or_None (plugins ?p)) = pre0 @ html_escape t @ post0"
      using card[OF t] by simp
    have "compare_loop ext n (before @ ?p # after) [] 0
            = compare_loop ext (n + length before) (?p # after) cb (fold max (map ?est before) 0)"
      unfolding compare_loop_append cb by (simp only: append_Nil sum.case prod.case)
    also have "\<dots> = compare_loop ext (Suc (n + length before)) after
                       (cb @ [pre0 @ html_escape t @ post0]) (max h1 (fold max (map ?est before) 0))"
      unfolding compare_loop_step[OF res' bo'] uid_def[symmetric] c h ..
    also have "\<dots> = Inr ((cb @ [pre0 @ html_escape t @ post0]) @ ca, mfin)"
      unfolding ca mfin_def ..
    finally have loop: "compare_loop ext n (before @ ?p # after) [] 0
            = Inr ((cb @ [pre0 @ html_escape t @ post0]) @ ca, mfin)" .
    have len: "int (length ((cb @ [pre0 @ html_escape t @ post0]) @ ca)) = count"
      by (simp add: count_def)
    show ?thesis
      unfolding compare_of_loop[OF loop] len
      by (simp add: pre_def post_def total_def grid_style_def)
  qed
  have "\<forall>t. t \<noteq> [] \<longrightarrow>
           compare ext n (before @ p\<lparr>title := Some t\<rparr> # after) columns
             = Inr (wrap_in_iframe (WAVESURFER_JS ext) (pre @ html_escape t @ post) total)
           \<and> CHR ''<'' \<notin> set (html_escape t)
           \<and> \<not> sublist ''<script>alert''
                 (wrap_in_iframe (WAVESURFER_JS ext) (pre @ html_escape t @ post) total)"
    using main html_escape_no_lt wrap_in_iframe_no_script by blast
  then show ?thesis by blast
qed

lemma xss_player_renders:
  "\<forall>q \<in> set ([] @ xss_player # []).
     (\<exists>u. resolve_audio silent_externals (audio q) (sr q) = Inr u)
     \<and> (\<exists>opts. build_options q = Inr opts)"
proof -
  have "resolve_audio silent_externals (audio xss_player) (sr xss_player)
          = Inr (''https://example.com/a.wav'', None)"
    by (simp add: xss_player_def resolve_audio_def startswith_def)
  moreover have "''cls'' \<notin> fst ` set (extra_options xss_player)"
    by (simp add: xss_player_def)
  then have "\<exists>opts. build_options xss_player = Inr opts"
    by (rule build_options_returns)
  ultimately show ?thesis by simp
qed

theorem compare_escapes_title_witness:
  \<open>\<exists>pre post total.
     compare silent_externals 0 [xss_player] 1
       = Inr (wrap_in_iframe (WAVESURFER_JS silent_externals)
                (pre @ ''&lt;script&gt;alert(&quot;xss&quot;)&lt;/script&gt;'' @ post) total)
     \<and> \<not> sublist ''<script>alert''
           (wrap_in_iframe (WAVESURFER_JS silent_externals)
              (pre @ ''&lt;script&gt;alert(&quot;xss&quot;)&lt;/script&gt;'' @ post) total)\<close>
proof -
  define x :: string where \<open>x = ''<script>alert("xss")</script>''\<close>
  have ne: "x \<noteq> []" by (simp add: x_def)
  have same: "xss_player\<lparr>title := Some x\<rparr> = xss_player"
    by (simp add: xss_player_def x_def)
  have esc: \<open>html_escape x = ''&lt;script&gt;alert(&quot;xss&quot;)&lt;/script&gt;''\<close>
    unfolding x_def by (rule xss_title_escaped)
  from compare_escapes_title[OF xss_player_renders, of 0 1]
  obtain pre post total where
    "\<forall>t. t \<noteq> [] \<longrightarrow>
        compare silent_externals 0 ([] @ xss_player\<lparr>title := Some t\<rparr> # []) 1
          = Inr (wrap_in_iframe (WAVESURFER_JS silent_externals) (pre @ html_escape t @ post) total)
        \<and> CHR ''<'' \<notin> set (html_escape t)
        \<and> \<not> sublist ''<script>alert''
              (wrap_in_iframe (WAVESURFER_JS silent_externals) (pre @ html_escape t @ post) total)"
    by blast
  with ne have
    "compare silent_externals 0 ([] @ xss_player\<lparr>title := Some x\<rparr> # []) 1
          = Inr (wrap_in_iframe (WAVESURFER_JS silent_externals) (pre @ html_escape x @ post) total)
        \<and> \<not> sublist ''<script>alert''
              (wrap_in_iframe (WAVESURFER_JS silent_externals) (pre @ html_escape x @ post) total)"
    by blast
  then show ?thesis
    unfolding same esc append_Nil by blast
qed

text \<open>
  The title block of that player, evaluated: the title is in it in its escaped form, and
  \<open><script>alert\<close> is not.
\<close>

lemma xss_title_block:
  \<open>sublist ''&lt;script&gt;alert(&quot;xss&quot;)&lt;/script&gt;</div>''
     (build_title_html ''<script>alert("xss")</script>'' DARK)
   \<and> \<not> sublist ''<script>alert'' (build_title_html ''<script>alert("xss")</script>'' DARK)\<close>
  by code_simp

subsection \<open>The layout composer\<close>

lemma fold_max_four:
  "fold max [a, b, c, d] (0::int) = max 0 (Max {a, b, c, d})"
  by (simp add: max_def)

lemma estimate_player_height_nonneg:
  "(\<And>h. Theme.height th = Some h \<Longrightarrow> - 48 \<le> h) \<Longrightarrow> 0 \<le> estimate_player_height t th c"
  by (auto simp: estimate_player_height_def controls_height_def Let_def split: option.splits)

lemma compare_four_layout:
  assumes "\<forall>p \<in> set [p1, p2, p3, p4].
             (\<exists>u. resolve_audio ext (audio p) (sr p) = Inr u)
             \<and> (\<exists>opts. build_options p = Inr opts)"
  shows \<open>\<exists>cards. length cards = 4
     \<and> compare ext n [p1, p2, p3, p4] 2
         = Inr (wrap_in_iframe (WAVESURFER_JS ext)
                  (''<div style="display: grid; grid-template-columns: repeat(2, 1fr); gap: 8px;">''
                     @ concat cards @ ''</div>'')
                  (2 * max 0 (Max {estimate_player_height (title p1) (theme p1) (controls p1),
                                   estimate_player_height (title p2) (theme p2) (controls p2),
                                   estimate_player_height (title p3) (theme p3) (controls p3),
                                   estimate_player_height (title p4) (theme p4) (controls p4)})
                   + 8))\<close>
proof -
  from compare_loop_cards[OF assms, of n]
  obtain cs where len': "length cs = length [p1, p2, p3, p4]"
    and loop': "compare_loop ext n [p1, p2, p3, p4] [] 0
      = Inr ([] @ cs, fold max (map (\<lambda>p. estimate_player_height (title p) (theme p) (controls p))
                             [p1, p2, p3, p4]) 0)"
    by blast
  from len' have len: "length cs = 4" by simp
  from loop' have loop: "compare_loop ext n [p1, p2, p3, p4] [] 0
      = Inr (cs, fold max (map (\<lambda>p. estimate_player_height (title p) (theme p) (controls p))
                             [p1, p2, p3, p4]) 0)"
    by (simp only: append_Nil)
  have two: "str_int 2 = ''2''"
    by code_simp
  have rows: "- ((- int (length cs)) div 2) = 2"
    using len by simp
  have cols: "(2::int) > 1" by simp
  from compare_of_loop[OF loop, of 2]
  have \<open>compare ext n [p1, p2, p3, p4] 2
         = Inr (wrap_in_iframe (WAVESURFER_JS ext)
                  (''<div style="'' @ (''display: grid; grid-template-columns: repeat('' @ ''2''
                     @ '', 1fr); gap: 8px;'') @ ''">'' @ concat cs @ ''</div>'')
                  (2 * max 0 (Max {estimate_player_height (title p1) (theme p1) (controls p1),
                                   estimate_player_height (title p2) (theme p2) (controls p2),
                                   estimate_player_height (title p3) (theme p3) (controls p3),
                                   estimate_player_height (title p4) (theme p4) (controls p4)})
                   + 8))\<close>
    unfolding two rows list.map fold_max_four if_P[OF cols] by simp
  then have \<open>compare ext n [p1, p2, p3, p4] 2
         = Inr (wrap_in_iframe (WAVESURFER_JS ext)
                  (''<div style="display: grid; grid-template-columns: repeat(2, 1fr); gap: 8px;">''
                     @ concat cs @ ''</div>'')
                  (2 * max 0 (Max {estimate_player_height (title p1) (theme p1) (controls p1),
                                   estimate_player_height (title p2) (theme p2) (controls p2),
                                   estimate_player_height (title p3) (theme p3) (controls p3),
                                   estimate_player_height (title p4) (theme p4) (controls p4)})
                   + 8))\<close>
    by simp
  with len show ?thesis by blast
qed

text \<open>
  C7. Four players whose audio resolves and whose options build, laid out by \<open>compare\<close>
  in two columns: the result is an iframe around a grid container that declares
  \<open>repeat(2, 1fr)\<close> and holds four cards, and the height of the iframe is \<open>ceil(4 / 2) = 2\<close>
  times the largest of the four estimated card heights, plus the margin 8. The loop keeps
  its running maximum from 0 on, which is the largest estimate as soon as one estimate is
  not negative; an estimate is at least 48 more than the waveform height of the theme
  (\<open>estimate_player_height_nonneg\<close>), which is a number of pixels.
\<close>

theorem compare_four_in_two_columns:
  assumes "\<forall>p \<in> set [p1, p2, p3, p4].
             (\<exists>u. resolve_audio ext (audio p) (sr p) = Inr u)
             \<and> (\<exists>opts. build_options p = Inr opts)"
    and "0 \<le> Max {estimate_player_height (title p1) (theme p1) (controls p1),
                 estimate_player_height (title p2) (theme p2) (controls p2),
                 estimate_player_height (title p3) (theme p3) (controls p3),
                 estimate_player_height (title p4) (theme p4) (controls p4)}"
  shows \<open>\<exists>cards. length cards = 4
     \<and> compare ext n [p1, p2, p3, p4] 2
         = Inr (wrap_in_iframe (WAVESURFER_JS ext)
                  (''<div style="display: grid; grid-template-columns: repeat(2, 1fr); gap: 8px;">''
                     @ concat cards @ ''</div>'')
                  (2 * Max {estimate_player_height (title p1) (theme p1) (controls p1),
                            estimate_player_height (title p2) (theme p2) (controls p2),
                            estimate_player_height (title p3) (theme p3) (controls p3),
                            estimate_player_height (title p4) (theme p4) (controls p4)}
                   + 8))\<close>
  using compare_four_layout[OF assms(1), of n] unfolding max_absorb2[OF assms(2)] .

lemma url_player_height:
  "estimate_player_height (title url_player) (theme url_player) (controls url_player) = 182"
  by (simp add: url_player_def estimate_player_height_def truthy_def DARK_def Theme_defaults_def
      controls_height_def Controls_defaults_def)

lemma url_player_renders:
  "\<forall>p \<in> set [url_player, url_player, url_player, url_player].
     (\<exists>u. resolve_audio silent_externals (audio p) (sr p) = Inr u)
     \<and> (\<exists>opts. build_options p = Inr opts)"
proof -
  have "resolve_audio silent_externals (audio url_player) (sr url_player)
          = Inr (''https://example.com/a.wav'', None)"
    by (simp add: url_player_def resolve_audio_def startswith_def)
  moreover have "''cls'' \<notin> fst ` set (extra_options url_player)"
    by (simp add: url_player_def)
  then have "\<exists>opts. build_options url_player = Inr opts"
    by (rule build_options_returns)
  ultimately show ?thesis by simp
qed

theorem compare_four_in_two_columns_witness:
  \<open>estimate_player_height (title url_player) (theme url_player) (controls url_player) = 182
   \<and> (\<exists>cards. length cards = 4
        \<and> compare silent_externals 0 [url_player, url_player, url_player, url_player] 2
            = Inr (wrap_in_iframe (WAVESURFER_JS silent_externals)
                    (''<div style="display: grid; grid-template-columns: repeat(2, 1fr); gap: 8px;">''
                       @ concat cards @ ''</div>'')
                    372))\<close>
proof -
  have nonneg: "0 \<le> Max {estimate_player_height (title url_player) (theme url_player)
                          (controls url_player),
                        estimate_player_height (title url_player) (theme url_player)
                          (controls url_player),
                        estimate_player_height (title url_player) (theme url_player)
                          (controls url_player),
                        estimate_player_height (title url_player) (theme url_player)
                          (controls url_player)}"
    unfolding url_player_height by simp
  from compare_four_in_two_columns[OF url_player_renders nonneg, of 0]
  show ?thesis unfolding url_player_height by simp
qed

text \<open>
  A player whose extra options hold the key \<open>cls\<close> is not rendered: building its options
  raises, in \<open>compare\<close> as in \<open>to_html\<close>.
\<close>

lemma build_options_cls:
  "''cls'' \<in> fst ` set (extra_options self) \<Longrightarrow>
   build_options self
     = Inl (TypeError_multiple_values ''WaveSurferOptions.from_kwargs'' ''cls'')"
  by (simp add: build_options_eq)

lemma compare_cls_raises:
  "resolve_audio ext (audio p) (sr p) = Inr u \<Longrightarrow> ''cls'' \<in> fst ` set (extra_options p) \<Longrightarrow>
   compare ext n (p # ps) columns
     = Inl (TypeError_multiple_values ''WaveSurferOptions.from_kwargs'' ''cls'')"
  by (cases u) (simp add: compare_def build_options_cls)

end
